theory Spec2Isabelle
  imports Main
begin

section \<open>Python values, exceptions and attribute slots\<close>

text \<open>
  The plugin of \<^verbatim>\<open>VADER_Sentiment_Engine.py\<close> is a pair of Python objects driven by a host
  engine through callbacks. Every callback is modelled as a function on an explicit
  state; an exception is a value, and the state reached when the exception is raised is
  kept, since Python keeps every assignment made before a \<^verbatim>\<open>raise\<close>.
\<close>

datatype py_error =
    AttributeError
  | UnboundLocalError
  | IndexError
  | TypeError
  | FieldNotFound
  | RecordLayoutError

text \<open>An instance attribute or a local variable is either not yet assigned or bound.\<close>

datatype 'a slot = Unbound | Bound 'a

section \<open>The engine SDK's data\<close>

datatype field_type =
    FT_bool | FT_byte | FT_int16 | FT_int32 | FT_int64 | FT_fixeddecimal
  | FT_float | FT_double | FT_string | FT_wstring | FT_v_string | FT_v_wstring
  | FT_date | FT_time | FT_datetime | FT_blob | FT_spatialobj | FT_unknown

datatype field = Field_desc (field_name: string) (field_type: field_type) (field_size: nat)

text \<open>A schema (a RecordInfo) is the ordered list of its field descriptors.\<close>

type_synonym record_info = "field list"

text \<open>
  A cell holds the textual form of a value, or nothing for a null (unset) value; a row
  is the list of its cells, position by position.
\<close>

type_synonym cell = "string option"
type_synonym row = "cell list"

text \<open>
  The values an attribute of the plugin takes at run time: Python's \<^verbatim>\<open>None\<close>, a
  \<^verbatim>\<open>str\<close>, or a Field object of a RecordInfo (its position and its descriptor).
\<close>

datatype pyval = PyNone | is_PyStr: PyStr string | is_PyField: PyField nat field

datatype engine_message_type = MT_info | MT_warning | MT_error

text \<open>What the plugin does to its host and to its output anchor, in the order it does it.\<close>

datatype event =
    Output_message int engine_message_type string
  | Get_output_anchor string
  | Anchor_init record_info
  | Anchor_push_record row

text \<open>
  The configuration arrives as XML text; the model starts from the parsed document
  (what \<^verbatim>\<open>Et.fromstring\<close> returns on well-formed XML).
\<close>

datatype xml_element =
  Element (elem_tag: string) (elem_text: "string option") (elem_children: "xml_element list")

definition find_child :: "xml_element \<Rightarrow> string \<Rightarrow> xml_element option" where
  \<comment> \<open>\<^verbatim>\<open>Element.find(tag)\<close>: the first direct child with that tag, or \<^verbatim>\<open>None\<close>.\<close>
  "find_child root t = List.find (\<lambda>c. elem_tag c = t) (elem_children root)"

subsection \<open>RecordInfo\<close>

definition clone :: "record_info \<Rightarrow> record_info" where
  \<comment> \<open>Modelled from the spec: \<^verbatim>\<open>RecordInfo.clone\<close> of the engine SDK, which is not part of
      the repository ("cloning the Input Schema").\<close>
  "clone ri = ri"

definition add_field :: "record_info \<Rightarrow> pyval \<Rightarrow> field_type \<Rightarrow> nat \<Rightarrow> py_error + record_info" where
  \<comment> \<open>Modelled from the spec: \<^verbatim>\<open>RecordInfo.add_field(name, type, size=0)\<close> of the engine
      SDK ("appending the five fields"); the name has to be a \<^verbatim>\<open>str\<close>.\<close>
  "add_field ri nm t sz =
     (case nm of
        PyStr s \<Rightarrow> Inr (ri @ [Field_desc s t sz])
      | _ \<Rightarrow> Inl TypeError)"

fun index_of :: "string \<Rightarrow> record_info \<Rightarrow> nat option" where
  "index_of s [] = None"
| "index_of s (f # fs) =
     (if field_name f = s then Some 0 else map_option Suc (index_of s fs))"

definition get_field_num :: "record_info \<Rightarrow> pyval \<Rightarrow> py_error + nat" where
  \<comment> \<open>Modelled from the spec: \<^verbatim>\<open>RecordInfo.get_field_num(name)\<close> of the engine SDK: the
      position of the field of that name; a name that does not resolve is an error.\<close>
  "get_field_num ri nm =
     (case nm of
        PyStr s \<Rightarrow> (case index_of s ri of None \<Rightarrow> Inl FieldNotFound | Some i \<Rightarrow> Inr i)
      | _ \<Rightarrow> Inl TypeError)"

definition getitem :: "record_info \<Rightarrow> nat \<Rightarrow> py_error + pyval" where
  \<comment> \<open>Modelled from the spec: \<^verbatim>\<open>record_info[i]\<close> of the engine SDK, the Field object at
      position \<open>i\<close> ("caches the positional index").\<close>
  "getitem ri i = (if i < length ri then Inr (PyField i (ri ! i)) else Inl IndexError)"

definition lookup_field :: "record_info \<Rightarrow> pyval \<Rightarrow> py_error + pyval" where
  \<comment> \<open>The expression \<^verbatim>\<open>ri[ri.get_field_num(name)]\<close>.\<close>
  "lookup_field ri nm =
     (case get_field_num ri nm of Inl e \<Rightarrow> Inl e | Inr i \<Rightarrow> getitem ri i)"

subsection \<open>RecordCreator, RecordCopier and Field access\<close>

type_synonym record_creator = "row"

definition construct_record_creator :: "record_info \<Rightarrow> record_creator" where
  \<comment> \<open>Modelled from the spec: a new, empty output row buffer of the schema's layout.\<close>
  "construct_record_creator ri = replicate (length ri) None"

definition reset :: "record_creator \<Rightarrow> record_creator" where
  \<comment> \<open>Modelled from the spec: \<^verbatim>\<open>RecordCreator.reset\<close>, every field back to its unset state.\<close>
  "reset rc = replicate (length rc) None"

definition finalize_record :: "record_creator \<Rightarrow> row" where
  \<comment> \<open>Modelled from the spec: \<^verbatim>\<open>RecordCreator.finalize_record\<close>, the row built so far
      ("finalize the output row").\<close>
  "finalize_record rc = rc"

text \<open>
  Modelled from the spec: a RecordCopier of the engine SDK is its list of (destination
  position, source position) mappings ("positionally mapped one-to-one"); \<^verbatim>\<open>add\<close> appends
  a mapping and \<^verbatim>\<open>done_adding\<close> closes the list.
\<close>

type_synonym record_copier = "(nat \<times> nat) list"

definition RecordCopier :: "record_info \<Rightarrow> record_info \<Rightarrow> record_copier" where
  "RecordCopier dst src = []"

definition copier_add :: "record_copier \<Rightarrow> nat \<Rightarrow> nat \<Rightarrow> record_copier" where
  "copier_add c d s = c @ [(d, s)]"

definition done_adding :: "record_copier \<Rightarrow> record_copier" where
  "done_adding c = c"

fun copier_copy :: "record_copier \<Rightarrow> record_creator \<Rightarrow> row \<Rightarrow> py_error + record_creator" where
  \<comment> \<open>Modelled from the spec: \<^verbatim>\<open>RecordCopier.copy\<close> ("copy every original field value
      verbatim into the corresponding position"); a row that has no such position does
      not conform to the layout.\<close>
  "copier_copy [] rc in_record = Inr rc"
| "copier_copy ((d, s) # ms) rc in_record =
     (if s < length in_record \<and> d < length rc
      then copier_copy ms (rc[d := in_record ! s]) in_record
      else Inl RecordLayoutError)"

definition is_string_type :: "field_type \<Rightarrow> bool" where
  "is_string_type t = (t = FT_string \<or> t = FT_wstring \<or> t = FT_v_string \<or> t = FT_v_wstring)"

definition stored_text :: "field \<Rightarrow> string \<Rightarrow> string" where
  \<comment> \<open>Modelled from the spec: a string field keeps at most its capacity ("truncated/bounded
      to the fixed string capacity"); for the other types the cell keeps the text it was
      set from, whose conversion to the field's representation is the SDK's.\<close>
  "stored_text f s = (if is_string_type (field_type f) then take (field_size f) s else s)"

definition get_as_string :: "pyval \<Rightarrow> row \<Rightarrow> py_error + cell" where
  \<comment> \<open>Modelled from the spec: \<^verbatim>\<open>Field.get_as_string(record)\<close> of the engine SDK ("read the
      configured text field's value as a string", \<^verbatim>\<open>None\<close> for a null); only a Field object
      has the method, and a row without that position does not conform to the layout.\<close>
  "get_as_string fld r =
     (case fld of
        PyField i f \<Rightarrow> (if i < length r then Inr (r ! i) else Inl RecordLayoutError)
      | _ \<Rightarrow> Inl AttributeError)"

definition set_from_string :: "pyval \<Rightarrow> record_creator \<Rightarrow> string \<Rightarrow> py_error + record_creator" where
  \<comment> \<open>Modelled from the spec: \<^verbatim>\<open>Field.set_from_string(creator, text)\<close> of the engine SDK
      ("write ... into" the field); only a Field object has the method.\<close>
  "set_from_string fld rc s =
     (case fld of
        PyField i f \<Rightarrow>
          (if i < length rc then Inr (rc[i := Some (stored_text f s)]) else Inl RecordLayoutError)
      | _ \<Rightarrow> Inl AttributeError)"

section \<open>The regular expression of the score extraction\<close>

text \<open>
  \<^verbatim>\<open>re.findall(r"[-+]?\d*\.*\d+", output)\<close>. The pattern is a sequence of quantified
  character classes; matching is Python's backtracking search: a quantifier takes as
  much as it can first and gives back one character at a time when the rest fails.
  \<^verbatim>\<open>\d\<close> is the ASCII digits, which is all a printed score can contain.
\<close>

datatype quantifier = Optional | ZeroOrMore | OneOrMore

type_synonym regex = "(string \<times> quantifier) list"

definition digits :: string where
  "digits = ''0123456789''"

definition score_pattern :: regex where
  "score_pattern = [(''-+'', Optional), (digits, ZeroOrMore), (''.'', ZeroOrMore), (digits, OneOrMore)]"

fun re_match :: "regex \<Rightarrow> string \<Rightarrow> nat option" where
  \<comment> \<open>The length of the match of the pattern at the start of the text, if there is one.\<close>
  "re_match [] s = Some 0"
| "re_match ((cs, Optional) # r) [] = re_match r []"
| "re_match ((cs, Optional) # r) (x # xs) =
     (if x \<in> set cs
      then (case re_match r xs of Some n \<Rightarrow> Some (Suc n) | None \<Rightarrow> re_match r (x # xs))
      else re_match r (x # xs))"
| "re_match ((cs, ZeroOrMore) # r) [] = re_match r []"
| "re_match ((cs, ZeroOrMore) # r) (x # xs) =
     (if x \<in> set cs
      then (case re_match ((cs, ZeroOrMore) # r) xs of
              Some n \<Rightarrow> Some (Suc n)
            | None \<Rightarrow> re_match r (x # xs))
      else re_match r (x # xs))"
| "re_match ((cs, OneOrMore) # r) [] = None"
| "re_match ((cs, OneOrMore) # r) (x # xs) =
     (if x \<in> set cs then map_option Suc (re_match ((cs, ZeroOrMore) # r) xs) else None)"

function findall :: "regex \<Rightarrow> string \<Rightarrow> string list" where
  \<comment> \<open>The non-overlapping matches, leftmost first; after an empty match the search moves
      on by one character.\<close>
  "findall r s =
     (case re_match r s of
        Some n \<Rightarrow>
          (if 0 < n then take n s # findall r (drop n s)
           else (case s of [] \<Rightarrow> [[]] | x # xs \<Rightarrow> [] # findall r xs))
      | None \<Rightarrow> (case s of [] \<Rightarrow> [] | x # xs \<Rightarrow> findall r xs))"
  by pat_completeness auto
termination
proof (relation "measure (\<lambda>(r, s). length s)")
  show "wf (measure (\<lambda>(r, s). length s))" by simp
next
  fix r :: regex and s :: string and n :: nat
  assume m: "re_match r s = Some n" and pos: "0 < n"
  have "re_match r s = Some n \<Longrightarrow> n \<le> length s"
    by (induction r s arbitrary: n rule: re_match.induct)
       (fastforce split: if_splits option.splits)+
  with m pos have "length (drop n s) < length s" by simp
  then show "((r, drop n s), (r, s)) \<in> measure (\<lambda>(r, s). length s)" by simp
qed simp_all

declare findall.simps [simp del]

definition py_index :: "'a list \<Rightarrow> nat \<Rightarrow> py_error + 'a" where
  \<comment> \<open>\<^verbatim>\<open>values[i]\<close> for a non-negative \<open>i\<close>.\<close>
  "py_index xs i = (if i < length xs then Inr (xs ! i) else Inl IndexError)"

section \<open>The sentiment analyzer\<close>

text \<open>
  The analyzer is a library outside the repository. It is a parameter of the model: a
  function from the sentence to four scores of some type \<open>'f\<close> of floating-point numbers,
  together with the function that prints such a number (Python's \<^verbatim>\<open>repr\<close>).
\<close>

datatype 'f polarity = Polarity (neg: 'f) (neu: 'f) (pos: 'f) (compound: 'f)

definition py_quote :: "string \<Rightarrow> string" where
  "py_quote s = [CHR 0x27] @ s @ [CHR 0x27]"

definition str_polarity :: "('f \<Rightarrow> string) \<Rightarrow> 'f polarity \<Rightarrow> string" where
  \<comment> \<open>Modelled from the spec: \<^verbatim>\<open>str(snt)\<close>, the printed dictionary of the four scores in the
      analyzer's order ("negative, neutral, positive, compound").\<close>
  "str_polarity float_repr snt =
     ''{'' @ py_quote ''neg'' @ '': '' @ float_repr (neg snt) @ '', ''
          @ py_quote ''neu'' @ '': '' @ float_repr (neu snt) @ '', ''
          @ py_quote ''pos'' @ '': '' @ float_repr (pos snt) @ '', ''
          @ py_quote ''compound'' @ '': '' @ float_repr (compound snt) @ ''}''"

section \<open>The plugin\<close>

record AyxPlugin =
  n_tool_id :: int
  Sentiment_score :: pyval
  data_type :: field_type
  data_size :: nat
  Negative_Score :: pyval
  data_type_double :: field_type
  Neutral_Score :: pyval
  Positive_Score :: pyval
  Compound_Score :: pyval
  field_selection :: "pyval slot"
  output_anchor :: "string slot"
  input_field :: "pyval slot"

record IncomingInterface =
  record_copier :: "record_copier option"
  record_creator :: "record_creator option"

text \<open>
  The state: the plugin object (\<open>parent\<close>), the incoming interface whose callbacks the
  host calls, the events so far, and the downstream consumer's answer to a pushed row,
  which may depend on everything that happened before.
\<close>

record world =
  parent :: AyxPlugin
  self_ii :: IncomingInterface
  events :: "event list"
  accepts :: "event list \<Rightarrow> row \<Rightarrow> bool"

definition AyxPlugin_init :: "int \<Rightarrow> AyxPlugin" where
  \<comment> \<open>\<^verbatim>\<open>AyxPlugin.__init__\<close>\<close>
  "AyxPlugin_init tool_id =
     \<lparr> n_tool_id = tool_id,
       Sentiment_score = PyStr ''Sentiment_Output'',
       data_type = FT_v_wstring,
       data_size = 100,
       Negative_Score = PyStr ''Negative_Score'',
       data_type_double = FT_double,
       Neutral_Score = PyStr ''Neutral_Score'',
       Positive_Score = PyStr ''Positive_Score'',
       Compound_Score = PyStr ''Compound_Score'',
       field_selection = Unbound,
       output_anchor = Unbound,
       input_field = Unbound \<rparr>"

definition IncomingInterface_init :: IncomingInterface where
  \<comment> \<open>\<^verbatim>\<open>IncomingInterface.__init__\<close>\<close>
  "IncomingInterface_init = \<lparr> record_copier = None, record_creator = None \<rparr>"

definition new_world :: "int \<Rightarrow> (event list \<Rightarrow> row \<Rightarrow> bool) \<Rightarrow> world" where
  "new_world tool_id downstream =
     \<lparr> parent = AyxPlugin_init tool_id,
       self_ii = IncomingInterface_init,
       events = [],
       accepts = downstream \<rparr>"

definition emit :: "event \<Rightarrow> world \<Rightarrow> world" where
  "emit e w = w\<lparr>events := events w @ [e]\<rparr>"

definition pi_init :: "world \<Rightarrow> xml_element \<Rightarrow> world" where
  "pi_init w str_xml =
     (let w1 = (case find_child str_xml ''FieldSelect'' of
                  Some e \<Rightarrow> w\<lparr>parent := (parent w)\<lparr>field_selection := Bound (case elem_text e of None \<Rightarrow> PyNone | Some s \<Rightarrow> PyStr s)\<rparr>\<rparr>
                | None \<Rightarrow>
                    emit (Output_message (n_tool_id (parent w)) MT_error ''Please select field to analyze'') w);
          w2 = emit (Get_output_anchor ''Output'') w1
      in w2\<lparr>parent := (parent w2)\<lparr>output_anchor := Bound ''Output''\<rparr>\<rparr>)"

definition pi_add_incoming_connection :: "world \<Rightarrow> world" where
  "pi_add_incoming_connection w = w\<lparr>self_ii := IncomingInterface_init\<rparr>"

definition getattr_xmsg :: "AyxPlugin \<Rightarrow> (string \<Rightarrow> string) slot" where
  \<comment> \<open>\<^verbatim>\<open>self.xmsg\<close>: the class defines no method of that name and no statement assigns such
      an attribute.\<close>
  "getattr_xmsg p = Unbound"

definition pi_push_all_records :: "world \<Rightarrow> int \<Rightarrow> (py_error + bool) \<times> world" where
  \<comment> \<open>The arguments of \<^verbatim>\<open>output_message\<close> are evaluated before the call.\<close>
  "pi_push_all_records w n_record_limit =
     (case getattr_xmsg (parent w) of
        Unbound \<Rightarrow> (Inl AttributeError, w)
      | Bound xmsg \<Rightarrow>
          (Inr False,
           emit (Output_message (n_tool_id (parent w)) MT_error (xmsg ''Missing Incoming Connection'')) w))"

definition ii_init_record_info_out :: "AyxPlugin \<Rightarrow> record_info \<Rightarrow> py_error + record_info" where
  \<comment> \<open>Lines 127 to 136: the clone of the incoming schema and the five \<^verbatim>\<open>add_field\<close> calls.\<close>
  "ii_init_record_info_out p record_info_in =
     (case add_field (clone record_info_in) (Sentiment_score p) (data_type p) (data_size p) of
        Inl e \<Rightarrow> Inl e
      | Inr r1 \<Rightarrow>
     (case add_field r1 (Negative_Score p) (data_type_double p) 0 of
        Inl e \<Rightarrow> Inl e
      | Inr r2 \<Rightarrow>
     (case add_field r2 (Neutral_Score p) (data_type_double p) 0 of
        Inl e \<Rightarrow> Inl e
      | Inr r3 \<Rightarrow>
     (case add_field r3 (Positive_Score p) (data_type_double p) 0 of
        Inl e \<Rightarrow> Inl e
      | Inr r4 \<Rightarrow> add_field r4 (Compound_Score p) (data_type_double p) 0))))"

definition ii_init_copier :: "record_info \<Rightarrow> record_info \<Rightarrow> record_copier" where
  \<comment> \<open>Lines 145 to 153: the copier, one mapping \<^verbatim>\<open>add(index, index)\<close> per incoming field.\<close>
  "ii_init_copier record_info_out record_info_in =
     done_adding
       (foldl (\<lambda>c index. copier_add c index index)
          (RecordCopier record_info_out record_info_in)
          [0 ..< length record_info_in])"

definition ii_init_lookups :: "record_info \<Rightarrow> AyxPlugin \<Rightarrow> (py_error + bool) \<times> AyxPlugin" where
  \<comment> \<open>Lines 158 to 167, which only touch \<^verbatim>\<open>self.parent\<close>: each attribute is read as a
      name, looked up in the outgoing schema and assigned the Field object found, one
      statement after the other.\<close>
  "ii_init_lookups record_info_out p =
     (case lookup_field record_info_out (Sentiment_score p) of
        Inl e \<Rightarrow> (Inl e, p)
      | Inr f1 \<Rightarrow>
     (let p1 = p\<lparr>Sentiment_score := f1\<rparr> in
      case lookup_field record_info_out (Negative_Score p1) of
        Inl e \<Rightarrow> (Inl e, p1)
      | Inr f2 \<Rightarrow>
     (let p2 = p1\<lparr>Negative_Score := f2\<rparr> in
      case lookup_field record_info_out (Neutral_Score p2) of
        Inl e \<Rightarrow> (Inl e, p2)
      | Inr f3 \<Rightarrow>
     (let p3 = p2\<lparr>Neutral_Score := f3\<rparr> in
      case lookup_field record_info_out (Positive_Score p3) of
        Inl e \<Rightarrow> (Inl e, p3)
      | Inr f4 \<Rightarrow>
     (let p4 = p3\<lparr>Positive_Score := f4\<rparr> in
      case lookup_field record_info_out (Compound_Score p4) of
        Inl e \<Rightarrow> (Inl e, p4)
      | Inr f5 \<Rightarrow>
     (let p5 = p4\<lparr>Compound_Score := f5\<rparr> in
      case field_selection p5 of
        Unbound \<Rightarrow> (Inl AttributeError, p5)
      | Bound sel \<Rightarrow>
     (case lookup_field record_info_out sel of
        Inl e \<Rightarrow> (Inl e, p5)
      | Inr f \<Rightarrow> (Inr True, p5\<lparr>input_field := Bound f\<rparr>))))))))"

definition ii_init :: "world \<Rightarrow> record_info \<Rightarrow> (py_error + bool) \<times> world" where
  "ii_init w record_info_in =
     (case ii_init_record_info_out (parent w) record_info_in of
        Inl e \<Rightarrow> (Inl e, w)
      | Inr record_info_out \<Rightarrow>
     (case output_anchor (parent w) of
        Unbound \<Rightarrow> (Inl AttributeError, w)
      | Bound anchor \<Rightarrow>
     (let w1 = emit (Anchor_init record_info_out) w;
          w2 = w1\<lparr>self_ii := (self_ii w1)
                 \<lparr>record_creator := Some (construct_record_creator record_info_out)\<rparr>\<rparr>;
          w3 = w2\<lparr>self_ii := (self_ii w2)
                 \<lparr>record_copier := Some (ii_init_copier record_info_out record_info_in)\<rparr>\<rparr>
      in case ii_init_lookups record_info_out (parent w3) of
           (res, p) \<Rightarrow> (res, w3\<lparr>parent := p\<rparr>))))"

definition write_outputs ::
  "AyxPlugin \<Rightarrow> record_creator \<Rightarrow> string \<Rightarrow> string \<Rightarrow> string \<Rightarrow> string \<Rightarrow> string
     \<Rightarrow> (py_error + unit) \<times> record_creator" where
  \<comment> \<open>Lines 196 to 200: the five \<^verbatim>\<open>set_from_string\<close> calls on the record creator.\<close>
  "write_outputs p rc output negative neutral positive compound_text =
     (case set_from_string (Sentiment_score p) rc output of
        Inl e \<Rightarrow> (Inl e, rc)
      | Inr rc1 \<Rightarrow>
     (case set_from_string (Negative_Score p) rc1 negative of
        Inl e \<Rightarrow> (Inl e, rc1)
      | Inr rc2 \<Rightarrow>
     (case set_from_string (Neutral_Score p) rc2 neutral of
        Inl e \<Rightarrow> (Inl e, rc2)
      | Inr rc3 \<Rightarrow>
     (case set_from_string (Positive_Score p) rc3 positive of
        Inl e \<Rightarrow> (Inl e, rc3)
      | Inr rc4 \<Rightarrow>
     (case set_from_string (Compound_Score p) rc4 compound_text of
        Inl e \<Rightarrow> (Inl e, rc4)
      | Inr rc5 \<Rightarrow> (Inr (), rc5))))))"

definition analyse_row ::
  "(string \<Rightarrow> 'f polarity) \<Rightarrow> ('f \<Rightarrow> string) \<Rightarrow> AyxPlugin \<Rightarrow> record_creator \<Rightarrow> string
     \<Rightarrow> (py_error + row) \<times> record_creator" where
  \<comment> \<open>Lines 183 to 201, the body of the \<^verbatim>\<open>if\<close>: the value is the row bound to
      \<^verbatim>\<open>out_record\<close>.\<close>
  "analyse_row polarity_scores float_repr p rc sentence =
     (let snt = polarity_scores sentence;
          output = str_polarity float_repr snt;
          values = findall score_pattern output
      in case py_index values 0 of Inl e \<Rightarrow> (Inl e, rc) | Inr negative \<Rightarrow>
        (case py_index values 1 of Inl e \<Rightarrow> (Inl e, rc) | Inr neutral \<Rightarrow>
        (case py_index values 2 of Inl e \<Rightarrow> (Inl e, rc) | Inr positive \<Rightarrow>
        (case py_index values 3 of Inl e \<Rightarrow> (Inl e, rc) | Inr compound_text \<Rightarrow>
        (case write_outputs p rc output negative neutral positive compound_text of
           (Inl e, rc') \<Rightarrow> (Inl e, rc')
         | (Inr u, rc') \<Rightarrow> (Inr (finalize_record rc'), rc'))))))"

definition push_out_record :: "world \<Rightarrow> row slot \<Rightarrow> (py_error + bool) \<times> world" where
  \<comment> \<open>Lines 204 to 207; \<^verbatim>\<open>out_record\<close> is a local variable that only the body of the
      \<^verbatim>\<open>if\<close> assigns.\<close>
  "push_out_record w out_record =
     (case output_anchor (parent w) of
        Unbound \<Rightarrow> (Inl AttributeError, w)
      | Bound anchor \<Rightarrow>
     (case out_record of
        Unbound \<Rightarrow> (Inl UnboundLocalError, w)
      | Bound r \<Rightarrow>
          (if \<not> accepts w (events w) r
           then (Inr False, emit (Anchor_push_record r) w)
           else (Inr True, emit (Anchor_push_record r) w))))"

definition set_creator :: "record_creator \<Rightarrow> world \<Rightarrow> world" where
  "set_creator rc w = w\<lparr>self_ii := (self_ii w)\<lparr>record_creator := Some rc\<rparr>\<rparr>"

definition ii_push_record ::
  "(string \<Rightarrow> 'f polarity) \<Rightarrow> ('f \<Rightarrow> string) \<Rightarrow> world \<Rightarrow> row \<Rightarrow> (py_error + bool) \<times> world" where
  "ii_push_record polarity_scores float_repr w in_record =
     (case record_creator (self_ii w) of
        None \<Rightarrow> (Inl AttributeError, w)
      | Some rc0 \<Rightarrow>
     (let w1 = set_creator (reset rc0) w in
      case record_copier (self_ii w1) of
        None \<Rightarrow> (Inl AttributeError, w1)
      | Some copier \<Rightarrow>
     (case copier_copy copier (reset rc0) in_record of
        Inl e \<Rightarrow> (Inl e, w1)
      | Inr rc \<Rightarrow>
     (let w2 = set_creator rc w1 in
      case input_field (parent w2) of
        Unbound \<Rightarrow> (Inl AttributeError, w2)
      | Bound fld \<Rightarrow>
     (case get_as_string fld in_record of
        Inl e \<Rightarrow> (Inl e, w2)
      | Inr None \<Rightarrow> push_out_record w2 Unbound
      | Inr (Some sentence) \<Rightarrow>
     (case analyse_row polarity_scores float_repr (parent w2) rc sentence of
        (Inl e, rc') \<Rightarrow> (Inl e, set_creator rc' w2)
      | (Inr out_record, rc') \<Rightarrow> push_out_record (set_creator rc' w2) (Bound out_record)))))))"

section \<open>The host's side of the callbacks\<close>

definition pushed_rows :: "world \<Rightarrow> row list" where
  \<comment> \<open>The rows handed to the output anchor so far, oldest first.\<close>
  "pushed_rows w = concat (map (\<lambda>e. case e of Anchor_push_record r \<Rightarrow> [r] | _ \<Rightarrow> []) (events w))"

fun host_push_records ::
  "(string \<Rightarrow> 'f polarity) \<Rightarrow> ('f \<Rightarrow> string) \<Rightarrow> world \<Rightarrow> row list \<Rightarrow> (py_error + bool) \<times> world" where
  \<comment> \<open>Modelled from the spec: the host engine delivers the rows one at a time, in order,
      and stops at the first delivery that does not return success ("any failure is
      terminal for that stream run").\<close>
  "host_push_records polarity_scores float_repr w [] = (Inr True, w)"
| "host_push_records polarity_scores float_repr w (r # rs) =
     (case ii_push_record polarity_scores float_repr w r of
        (Inr True, w') \<Rightarrow> host_push_records polarity_scores float_repr w' rs
      | (res, w') \<Rightarrow> (res, w'))"

definition configured :: "int \<Rightarrow> (event list \<Rightarrow> row \<Rightarrow> bool) \<Rightarrow> xml_element \<Rightarrow> world" where
  \<comment> \<open>A freshly constructed plugin after \<^verbatim>\<open>pi_init\<close> and \<^verbatim>\<open>pi_add_incoming_connection\<close>.\<close>
  "configured tool_id downstream str_xml =
     pi_add_incoming_connection (pi_init (new_world tool_id downstream) str_xml)"

definition run_stream ::
  "(string \<Rightarrow> 'f polarity) \<Rightarrow> ('f \<Rightarrow> string) \<Rightarrow> int \<Rightarrow> (event list \<Rightarrow> row \<Rightarrow> bool)
     \<Rightarrow> xml_element \<Rightarrow> record_info \<Rightarrow> row list \<Rightarrow> (py_error + bool) \<times> world" where
  \<comment> \<open>Modelled from the spec: one stream run of a freshly constructed plugin, in the
      host's fixed order: configuration, the incoming connection, schema negotiation,
      then the rows.\<close>
  "run_stream polarity_scores float_repr tool_id downstream str_xml record_info_in rows =
     (case ii_init (configured tool_id downstream str_xml) record_info_in of
        (Inr True, w1) \<Rightarrow> host_push_records polarity_scores float_repr w1 rows
      | (res, w1) \<Rightarrow> (res, w1))"

section \<open>Printed scores\<close>

definition is_digit :: "char \<Rightarrow> bool" where
  "is_digit c = (c \<in> set digits)"

definition plain_decimal :: "string \<Rightarrow> bool" where
  \<comment> \<open>Plain decimal notation: an optional minus sign, digits, a point, digits.\<close>
  "plain_decimal s =
     (let u = (if take 1 s = ''-'' then drop 1 s else s);
          ip = takeWhile is_digit u;
          r = dropWhile is_digit u
      in ip \<noteq> [] \<and> take 1 r = ''.'' \<and> drop 1 r \<noteq> [] \<and> list_all is_digit (drop 1 r))"

section \<open>Scenarios\<close>

definition config_selecting :: "string \<Rightarrow> xml_element" where
  \<comment> \<open>\<^verbatim>\<open><Configuration><FieldSelect>name</FieldSelect></Configuration>\<close>\<close>
  "config_selecting name = Element ''Configuration'' None [Element ''FieldSelect'' (Some name) []]"

definition config_without_selection :: xml_element where
  \<comment> \<open>\<^verbatim>\<open><Configuration/>\<close>\<close>
  "config_without_selection = Element ''Configuration'' None []"

definition config_empty_selection :: xml_element where
  \<comment> \<open>\<^verbatim>\<open><Configuration><FieldSelect/></Configuration>\<close>\<close>
  "config_empty_selection = Element ''Configuration'' None [Element ''FieldSelect'' None []]"

definition id_comment_schema :: record_info where
  "id_comment_schema = [Field_desc ''id'' FT_int32 4, Field_desc ''comment'' FT_v_wstring 254]"

definition accept_all :: "event list \<Rightarrow> row \<Rightarrow> bool" where
  "accept_all ev r = True"

definition refuse_all :: "event list \<Rightarrow> row \<Rightarrow> bool" where
  "refuse_all ev r = False"

definition printed :: "string \<Rightarrow> string" where
  \<comment> \<open>A score given by its printed form prints as itself.\<close>
  "printed x = x"

definition love_scores :: "string \<Rightarrow> string polarity" where
  \<comment> \<open>An analyzer stub that answers every sentence with the same four scores.\<close>
  "love_scores sentence = Polarity ''0.0'' ''0.323'' ''0.677'' ''0.6369''"

section \<open>The outgoing schema\<close>

text \<open>The five descriptors that \<^verbatim>\<open>ii_init\<close> appends, for a plugin whose attributes hold the names.\<close>

definition appended_fields :: "AyxPlugin \<Rightarrow> string \<Rightarrow> string \<Rightarrow> string \<Rightarrow> string \<Rightarrow> string \<Rightarrow> record_info" where
  "appended_fields p n1 n2 n3 n4 n5 =
     [Field_desc n1 (data_type p) (data_size p),
      Field_desc n2 (data_type_double p) 0,
      Field_desc n3 (data_type_double p) 0,
      Field_desc n4 (data_type_double p) 0,
      Field_desc n5 (data_type_double p) 0]"

text \<open>The same five descriptors for a freshly constructed plugin.\<close>

definition sentiment_fields :: record_info where
  "sentiment_fields =
     [Field_desc ''Sentiment_Output'' FT_v_wstring 100,
      Field_desc ''Negative_Score'' FT_double 0,
      Field_desc ''Neutral_Score'' FT_double 0,
      Field_desc ''Positive_Score'' FT_double 0,
      Field_desc ''Compound_Score'' FT_double 0]"

text \<open>
  A value is resolved for a name in a schema when it is the Field object of the first
  field of that name: its position and the descriptor at that position.
\<close>

definition resolved :: "record_info \<Rightarrow> string \<Rightarrow> pyval \<Rightarrow> bool" where
  "resolved ro n v =
     (case v of
        PyField i f \<Rightarrow> index_of n ro = Some i \<and> f = ro ! i
      | _ \<Rightarrow> False)"

text \<open>
  The plugin after a successful negotiation over a schema of \<open>n\<close> fields none of which bears
  one of the five names: the attributes hold the Field objects of the appended fields.
\<close>

definition negotiated :: "AyxPlugin \<Rightarrow> nat \<Rightarrow> pyval \<Rightarrow> AyxPlugin" where
  "negotiated p n fld =
     p\<lparr>Sentiment_score := PyField n (Field_desc ''Sentiment_Output'' FT_v_wstring 100),
       Negative_Score := PyField (n + 1) (Field_desc ''Negative_Score'' FT_double 0),
       Neutral_Score := PyField (n + 2) (Field_desc ''Neutral_Score'' FT_double 0),
       Positive_Score := PyField (n + 3) (Field_desc ''Positive_Score'' FT_double 0),
       Compound_Score := PyField (n + 4) (Field_desc ''Compound_Score'' FT_double 0),
       input_field := Bound fld\<rparr>"

text \<open>
  What a delivered row is expected to become: the row followed by the printed result, cut
  at the capacity of Sentiment_Output, and the four printed scores of its sentence at
  position \<open>k\<close>. A row is well scored when it has the length of the incoming schema, its
  sentence is not null and the four scores of the sentence print in plain decimal notation.
\<close>

definition augmented :: "(string \<Rightarrow> 'f polarity) \<Rightarrow> ('f \<Rightarrow> string) \<Rightarrow> nat \<Rightarrow> row \<Rightarrow> row" where
  "augmented A R k r =
     (case r ! k of
        None \<Rightarrow> r
      | Some sentence \<Rightarrow>
          r @ [Some (take 100 (str_polarity R (A sentence))),
               Some (R (neg (A sentence))), Some (R (neu (A sentence))),
               Some (R (pos (A sentence))), Some (R (compound (A sentence)))])"

definition well_scored :: "(string \<Rightarrow> 'f polarity) \<Rightarrow> ('f \<Rightarrow> string) \<Rightarrow> record_info \<Rightarrow> nat \<Rightarrow> row \<Rightarrow> bool" where
  "well_scored A R ri k r =
     (length r = length ri \<and>
      (case r ! k of
         None \<Rightarrow> False
       | Some sentence \<Rightarrow>
           plain_decimal (R (neg (A sentence))) \<and> plain_decimal (R (neu (A sentence))) \<and>
           plain_decimal (R (pos (A sentence))) \<and> plain_decimal (R (compound (A sentence)))))"

text \<open>An incoming schema that already has a field named like one of the five.\<close>

definition comment_score_schema :: record_info where
  "comment_score_schema =
     [Field_desc ''comment'' FT_v_wstring 254, Field_desc ''Compound_Score'' FT_double 8]"

text \<open>
  An incoming schema whose field of that name is a string field of capacity 3.
\<close>

definition comment_capped_score_schema :: record_info where
  "comment_capped_score_schema =
     [Field_desc ''comment'' FT_v_wstring 254, Field_desc ''Compound_Score'' FT_v_string 3]"

text \<open>A negotiated plugin whose downstream consumer refuses every row.\<close>

definition negotiated_refusing :: world where
  "negotiated_refusing =
     snd (ii_init (configured 7 refuse_all (config_selecting ''comment'')) id_comment_schema)"

section \<open>Evaluation rules\<close>

lemmas sdk_defs =
  clone_def add_field_def get_field_num_def getitem_def lookup_field_def
  construct_record_creator_def reset_def finalize_record_def RecordCopier_def copier_add_def
  done_adding_def is_string_type_def stored_text_def get_as_string_def set_from_string_def
  py_index_def find_child_def

lemmas plugin_defs =
  AyxPlugin_init_def IncomingInterface_init_def new_world_def emit_def pi_init_def
  pi_add_incoming_connection_def configured_def ii_init_record_info_out_def ii_init_copier_def
  ii_init_lookups_def ii_init_def write_outputs_def analyse_row_def push_out_record_def
  set_creator_def ii_push_record_def pushed_rows_def run_stream_def

lemmas scenario_defs =
  config_selecting_def config_without_selection_def config_empty_selection_def
  id_comment_schema_def accept_all_def refuse_all_def printed_def love_scores_def

section \<open>What the score pattern extracts\<close>

lemma re_match_digits_star:
  "list_all is_digit fp \<Longrightarrow> (t = [] \<or> \<not> is_digit (hd t)) \<Longrightarrow>
   re_match [(digits, ZeroOrMore)] (fp @ t) = Some (length fp)"
proof (induction fp)
  case Nil
  then show ?case by (cases t) (auto simp: is_digit_def)
next
  case (Cons c fp)
  then show ?case by (simp add: is_digit_def)
qed

lemma re_match_digits_plus:
  "list_all is_digit fp \<Longrightarrow> fp \<noteq> [] \<Longrightarrow> (t = [] \<or> \<not> is_digit (hd t)) \<Longrightarrow>
   re_match [(digits, OneOrMore)] (fp @ t) = Some (length fp)"
  by (cases fp) (simp_all add: re_match_digits_star is_digit_def)

lemma not_dot_digit: "is_digit c \<Longrightarrow> c \<noteq> CHR ''.''"
  by (auto simp: is_digit_def digits_def)

lemma not_sign_digit: "is_digit c \<Longrightarrow> c \<noteq> CHR ''-'' \<and> c \<noteq> CHR ''+''"
  by (auto simp: is_digit_def digits_def)

lemma re_match_fraction:
  assumes "list_all is_digit fp" "fp \<noteq> []" "t = [] \<or> \<not> is_digit (hd t)"
  shows "re_match [(''.'', ZeroOrMore), (digits, OneOrMore)] (CHR ''.'' # fp @ t) = Some (Suc (length fp))"
proof -
  obtain c cs where fp: "fp = c # cs" using assms(2) by (cases fp) auto
  with assms(1) have c: "is_digit c" by simp
  have "re_match [(''.'', ZeroOrMore), (digits, OneOrMore)] (fp @ t) = re_match [(digits, OneOrMore)] (fp @ t)"
    using not_dot_digit[OF c] by (simp add: fp)
  then show ?thesis using re_match_digits_plus[OF assms] by simp
qed

lemma re_match_unsigned:
  assumes "list_all is_digit ip" "list_all is_digit fp" "fp \<noteq> []" "t = [] \<or> \<not> is_digit (hd t)"
  shows "re_match [(digits, ZeroOrMore), (''.'', ZeroOrMore), (digits, OneOrMore)] (ip @ CHR ''.'' # fp @ t)
         = Some (length ip + Suc (length fp))"
  using assms(1)
proof (induction ip)
  case Nil
  have "CHR ''.'' \<notin> set digits" by (simp add: digits_def)
  then show ?case using re_match_fraction[OF assms(2,3,4)] by simp
next
  case (Cons c ip)
  then show ?case by (simp add: is_digit_def)
qed

lemma take1_Cons: "take 1 s = [c] \<Longrightarrow> s = c # drop 1 s"
  by (cases s) simp_all

lemma take1_split: "take 1 s = [c] \<Longrightarrow> s = [c] @ drop 1 s"
  by (cases s) simp_all

lemma plain_decimalE:
  assumes "plain_decimal s"
  obtains sg ip fp where "s = sg @ ip @ CHR ''.'' # fp" "sg = [] \<or> sg = ''-''"
    "list_all is_digit ip" "ip \<noteq> []" "list_all is_digit fp" "fp \<noteq> []"
proof -
  define u where "u = (if take 1 s = ''-'' then drop 1 s else s)"
  define sg where "sg = (if take 1 s = ''-'' then ''-'' else [])"
  define ip where "ip = takeWhile is_digit u"
  define r where "r = dropWhile is_digit u"
  have s: "s = sg @ u"
  proof (cases "take 1 s = ''-''")
    case True
    show ?thesis unfolding sg_def u_def if_P[OF True] by (rule take1_split[OF True])
  next
    case False
    show ?thesis unfolding sg_def u_def if_not_P[OF False] by simp
  qed
  have u: "u = ip @ r" by (simp add: ip_def r_def)
  from assms have p: "ip \<noteq> []" "take 1 r = ''.''" "drop 1 r \<noteq> []" "list_all is_digit (drop 1 r)"
    unfolding plain_decimal_def Let_def u_def[symmetric] ip_def[symmetric] r_def[symmetric] by simp_all
  from p(2) have r: "r = CHR ''.'' # drop 1 r" by (rule take1_Cons)
  have "\<And>x. x \<in> set ip \<Longrightarrow> is_digit x" unfolding ip_def by (rule set_takeWhileD[THEN conjunct2])
  then have "list_all is_digit ip" by (simp add: list_all_iff)
  moreover have "s = sg @ ip @ CHR ''.'' # drop 1 r" using s u r by simp
  moreover have "sg = [] \<or> sg = ''-''" by (simp add: sg_def)
  ultimately show thesis using that p by blast
qed

lemma re_match_plain_decimal:
  assumes "plain_decimal d" "t = [] \<or> \<not> is_digit (hd t)"
  shows "re_match score_pattern (d @ t) = Some (length d)"
proof -
  from assms(1) obtain sg ip fp where d: "d = sg @ ip @ CHR ''.'' # fp" and sg: "sg = [] \<or> sg = ''-''"
    and ip: "list_all is_digit ip" "ip \<noteq> []" and fp: "list_all is_digit fp" "fp \<noteq> []"
    by (rule plain_decimalE)
  let ?r = "[(digits, ZeroOrMore), (''.'', ZeroOrMore), (digits, OneOrMore)]"
  have body: "re_match ?r (ip @ CHR ''.'' # fp @ t) = Some (length ip + Suc (length fp))"
    by (rule re_match_unsigned[OF ip(1) fp assms(2)])
  obtain c cs where ipc: "ip = c # cs" using ip(2) by (cases ip) auto
  with ip(1) have c: "is_digit c" by simp
  from sg show ?thesis
  proof
    assume "sg = []"
    then show ?thesis using body not_sign_digit[OF c] 
      by (simp add: d score_pattern_def ipc)
  next
    assume "sg = ''-''"
    then show ?thesis using body by (simp add: d score_pattern_def)
  qed
qed

lemma findall_skip:
  "c \<notin> set ''-+.0123456789'' \<Longrightarrow> findall score_pattern (c # s) = findall score_pattern s"
  by (subst findall.simps) (simp add: score_pattern_def digits_def)

lemma findall_plain_decimal:
  assumes "plain_decimal d" "t = [] \<or> \<not> is_digit (hd t)"
  shows "findall score_pattern (d @ t) = d # findall score_pattern t"
proof -
  have "d \<noteq> []" using assms(1) by (auto simp: plain_decimal_def)
  then show ?thesis
    by (subst findall.simps) (simp add: re_match_plain_decimal[OF assms])
qed

lemma findall_Nil: "findall score_pattern [] = []"
  by (subst findall.simps) (simp add: score_pattern_def)

lemma findall_str_polarity:
  assumes "plain_decimal (R (neg snt))" "plain_decimal (R (neu snt))"
          "plain_decimal (R (pos snt))" "plain_decimal (R (compound snt))"
  shows "findall score_pattern (str_polarity R snt)
         = [R (neg snt), R (neu snt), R (pos snt), R (compound snt)]"
  using assms
  by (simp add: str_polarity_def py_quote_def findall_skip findall_plain_decimal findall_Nil
        is_digit_def digits_def)

lemma love_values:
  "findall score_pattern (str_polarity printed (love_scores s))
   = [''0.0'', ''0.323'', ''0.677'', ''0.6369'']"
  unfolding str_polarity_def py_quote_def printed_def love_scores_def polarity.sel
  by code_simp

section \<open>No incoming connection\<close>

text \<open>
  Claim C8: invoked with no incoming connection, the adapter reports the error message
  "Missing Incoming Connection" to the host and returns failure without producing output
  rows.

  On the code the message is never reported and nothing is returned. The message text is
  passed through \<^verbatim>\<open>self.xmsg\<close>, and \<^verbatim>\<open>AyxPlugin\<close> has no attribute of that name, so evaluating
  the arguments of \<^verbatim>\<open>output_message\<close> raises \<^verbatim>\<open>AttributeError\<close> before the call: in every
  state and for every record limit, \<open>pi_push_all_records\<close> ends in that exception and leaves
  the state, and so the events seen by the host, as they were.
\<close>

theorem pi_push_all_records_raises:
  "pi_push_all_records w n_record_limit = (Inl AttributeError, w)"
  by (simp add: pi_push_all_records_def getattr_xmsg_def)

section \<open>A row whose text field is null\<close>

text \<open>
  Whatever the state, a delivery whose text field reads as null ends in an exception and
  adds no event.
\<close>

lemma null_text_never_pushed:
  assumes "input_field (parent w) = Bound fld" "get_as_string fld r = Inr None"
  shows "isl (fst (ii_push_record A R w r))" and "events (snd (ii_push_record A R w r)) = events w"
  using assms
  by (simp_all add: ii_push_record_def Let_def set_creator_def push_out_record_def
      split: option.splits sum.splits slot.splits)

text \<open>
  Claim C1: for a row whose configured text field is null, the adapter still emits an
  output row with the original values, leaves the five sentiment fields unset, and the
  run does not abort.

  On the code, \<^verbatim>\<open>out_record\<close> is assigned only inside the \<^verbatim>\<open>if\<close> of the non-null case,
  while the push that follows the \<^verbatim>\<open>if\<close> reads it. For the schema (id, comment), the
  selection of comment and the row (1, null), the delivery ends in \<^verbatim>\<open>UnboundLocalError\<close>
  and no row reaches the output anchor.
\<close>

theorem null_text_row_raises:
  "fst (run_stream love_scores printed 7 accept_all (config_selecting ''comment'')
          id_comment_schema [[Some ''1'', None]]) = Inl UnboundLocalError
   \<and> pushed_rows (snd (run_stream love_scores printed 7 accept_all (config_selecting ''comment'')
          id_comment_schema [[Some ''1'', None]])) = []"
  by (simp add: plugin_defs sdk_defs scenario_defs upt_rec)

section \<open>Schema negotiation\<close>

lemma index_of_None_iff: "index_of s fs = None \<longleftrightarrow> s \<notin> field_name ` set fs"
  by (induction fs) auto

lemma index_of_Some_less: "index_of s fs = Some i \<Longrightarrow> i < length fs \<and> field_name (fs ! i) = s"
  by (induction fs arbitrary: i) (auto split: if_splits)

lemma index_of_append_left: "index_of s xs = Some i \<Longrightarrow> index_of s (xs @ ys) = Some i"
  by (induction xs arbitrary: i) (auto split: if_splits)

lemma index_of_append_right:
  "index_of s xs = None \<Longrightarrow> index_of s (xs @ ys) = map_option (\<lambda>j. length xs + j) (index_of s ys)"
proof (induction xs)
  case Nil
  show ?case by (cases "index_of s ys") simp_all
next
  case (Cons a xs)
  then show ?case by (cases "index_of s ys") (auto split: if_splits)
qed

lemma lookup_field_name:
  assumes "n \<in> field_name ` set ri"
  shows "\<exists>i. lookup_field ri (PyStr n) = Inr (PyField i (ri ! i)) \<and> i < length ri
           \<and> index_of n ri = Some i"
proof -
  from assms obtain i where i: "index_of n ri = Some i"
    using index_of_None_iff[of n ri] by (cases "index_of n ri") auto
  then have "i < length ri" by (simp add: index_of_Some_less)
  with i have "lookup_field ri (PyStr n) = Inr (PyField i (ri ! i))"
    by (simp add: lookup_field_def get_field_num_def getitem_def)
  then show ?thesis using i \<open>i < length ri\<close> by blast
qed

lemma record_info_out_names:
  assumes "Sentiment_score p = PyStr n1" "Negative_Score p = PyStr n2" "Neutral_Score p = PyStr n3"
    "Positive_Score p = PyStr n4" "Compound_Score p = PyStr n5"
  shows "ii_init_record_info_out p ri = Inr (ri @ appended_fields p n1 n2 n3 n4 n5)"
  using assms by (simp add: ii_init_record_info_out_def add_field_def clone_def appended_fields_def)

lemma record_info_out_TypeError:
  "is_PyField (Sentiment_score p) \<Longrightarrow> ii_init_record_info_out p ri = Inl TypeError"
  by (cases "Sentiment_score p") (simp_all add: ii_init_record_info_out_def add_field_def)

lemma ii_init_lookups_resolved:
  assumes "Sentiment_score p = PyStr n1" "Negative_Score p = PyStr n2" "Neutral_Score p = PyStr n3"
    "Positive_Score p = PyStr n4" "Compound_Score p = PyStr n5"
    and "{n1, n2, n3, n4, n5} \<subseteq> field_name ` set ro"
  shows "resolved ro n1 (Sentiment_score (snd (ii_init_lookups ro p)))
       \<and> resolved ro n2 (Negative_Score (snd (ii_init_lookups ro p)))
       \<and> resolved ro n3 (Neutral_Score (snd (ii_init_lookups ro p)))
       \<and> resolved ro n4 (Positive_Score (snd (ii_init_lookups ro p)))
       \<and> resolved ro n5 (Compound_Score (snd (ii_init_lookups ro p)))"
proof -
  from assms(6) have "n1 \<in> field_name ` set ro" by simp
  then obtain i1 where l1: "lookup_field ro (PyStr n1) = Inr (PyField i1 (ro ! i1))"
    and x1: "index_of n1 ro = Some i1"
    using lookup_field_name by blast
  from assms(6) have "n2 \<in> field_name ` set ro" by simp
  then obtain i2 where l2: "lookup_field ro (PyStr n2) = Inr (PyField i2 (ro ! i2))"
    and x2: "index_of n2 ro = Some i2"
    using lookup_field_name by blast
  from assms(6) have "n3 \<in> field_name ` set ro" by simp
  then obtain i3 where l3: "lookup_field ro (PyStr n3) = Inr (PyField i3 (ro ! i3))"
    and x3: "index_of n3 ro = Some i3"
    using lookup_field_name by blast
  from assms(6) have "n4 \<in> field_name ` set ro" by simp
  then obtain i4 where l4: "lookup_field ro (PyStr n4) = Inr (PyField i4 (ro ! i4))"
    and x4: "index_of n4 ro = Some i4"
    using lookup_field_name by blast
  from assms(6) have "n5 \<in> field_name ` set ro" by simp
  then obtain i5 where l5: "lookup_field ro (PyStr n5) = Inr (PyField i5 (ro ! i5))"
    and x5: "index_of n5 ro = Some i5"
    using lookup_field_name by blast
  show ?thesis
    by (simp add: ii_init_lookups_def Let_def assms(1-5) l1 l2 l3 l4 l5 x1 x2 x3 x4 x5 resolved_def
        split: slot.splits sum.splits)
qed

lemma resolved_is_PyField: "resolved ro n v \<Longrightarrow> is_PyField v"
  by (cases v) (simp_all add: resolved_def)

lemma ii_init_parent:
  assumes "ii_init_record_info_out (parent w) ri = Inr ro" "output_anchor (parent w) = Bound a"
  shows "parent (snd (ii_init w ri)) = snd (ii_init_lookups ro (parent w))"
    and "fst (ii_init w ri) = fst (ii_init_lookups ro (parent w))"
    and "events (snd (ii_init w ri)) = events w @ [Anchor_init ro]"
    and "self_ii (snd (ii_init w ri)) =
           \<lparr>record_copier = Some (ii_init_copier ro ri), record_creator = Some (construct_record_creator ro)\<rparr>"
    and "accepts (snd (ii_init w ri)) = accepts w"
  using assms by (simp_all add: ii_init_def emit_def split: prod.splits)

lemma configured_parent:
  "parent (configured tool_id downstream str_xml) =
     (AyxPlugin_init tool_id)
       \<lparr>field_selection :=
          (case find_child str_xml ''FieldSelect'' of
             None \<Rightarrow> Unbound
           | Some e \<Rightarrow> Bound (case elem_text e of None \<Rightarrow> PyNone | Some s \<Rightarrow> PyStr s)),
        output_anchor := Bound ''Output''\<rparr>"
  by (simp add: configured_def pi_add_incoming_connection_def pi_init_def new_world_def emit_def
      AyxPlugin_init_def split: option.splits)

lemma configured_events:
  "events (configured tool_id downstream str_xml) =
     (case find_child str_xml ''FieldSelect'' of
        None \<Rightarrow> [Output_message tool_id MT_error ''Please select field to analyze'']
      | Some e \<Rightarrow> []) @ [Get_output_anchor ''Output'']"
  by (simp add: configured_def pi_add_incoming_connection_def pi_init_def new_world_def emit_def
      AyxPlugin_init_def split: option.splits)

lemma configured_self_ii:
  "self_ii (configured tool_id downstream str_xml) = IncomingInterface_init"
  by (simp add: configured_def pi_add_incoming_connection_def)

lemma configured_accepts:
  "accepts (configured tool_id downstream str_xml) = downstream"
  by (simp add: configured_def pi_add_incoming_connection_def pi_init_def new_world_def emit_def
      split: option.splits)

lemma configured_record_info_out:
  "ii_init_record_info_out (parent (configured tool_id downstream str_xml)) ri
     = Inr (ri @ sentiment_fields)"
  by (simp add: configured_parent ii_init_record_info_out_def add_field_def clone_def
      AyxPlugin_init_def sentiment_fields_def)

lemma configured_anchor: "output_anchor (parent (configured tool_id downstream str_xml)) = Bound ''Output''"
  by (simp add: configured_parent)

text \<open>
  Claim C4: for every Input Schema received at schema negotiation, the published Output
  Schema is the Input Schema's fields in their order, followed by exactly five new fields
  in fixed order and with fixed types: Sentiment_Output (string, capacity 100), then
  Negative_Score, Neutral_Score, Positive_Score and Compound_Score (floating point).

  For a freshly constructed plugin after configuration, whatever the configuration was,
  \<open>ii_init\<close> hands exactly that schema to the output anchor, as the one event it adds.
\<close>

theorem ii_init_publishes_output_schema:
  "events (snd (ii_init (configured tool_id downstream str_xml) record_info_in)) =
     events (configured tool_id downstream str_xml) @
     [Anchor_init (record_info_in @
        [Field_desc ''Sentiment_Output'' FT_v_wstring 100,
         Field_desc ''Negative_Score'' FT_double 0,
         Field_desc ''Neutral_Score'' FT_double 0,
         Field_desc ''Positive_Score'' FT_double 0,
         Field_desc ''Compound_Score'' FT_double 0])]"
  using ii_init_parent(3)[OF configured_record_info_out configured_anchor]
  by (simp add: sentiment_fields_def)

text \<open>
  Claim C10: schema negotiation is applicable at most once per plugin instance. Before
  \<open>ii_init\<close> the five attributes hold field-name strings; \<open>ii_init\<close> reassigns each of
  them to the Field object that its name resolves to in the outgoing schema, and since it
  reads the same attributes as names, a second \<open>ii_init\<close> on the instance fails:
  \<^verbatim>\<open>add_field\<close> is given a Field object for a name, and the instance is left as it was.
\<close>

theorem second_ii_init_raises:
  assumes "Sentiment_score (parent w) = PyStr n1" "Negative_Score (parent w) = PyStr n2"
    "Neutral_Score (parent w) = PyStr n3" "Positive_Score (parent w) = PyStr n4"
    "Compound_Score (parent w) = PyStr n5"
    and "output_anchor (parent w) = Bound anchor"
  shows "resolved (ri @ appended_fields (parent w) n1 n2 n3 n4 n5) n1
           (Sentiment_score (parent (snd (ii_init w ri))))
       \<and> resolved (ri @ appended_fields (parent w) n1 n2 n3 n4 n5) n2
           (Negative_Score (parent (snd (ii_init w ri))))
       \<and> resolved (ri @ appended_fields (parent w) n1 n2 n3 n4 n5) n3
           (Neutral_Score (parent (snd (ii_init w ri))))
       \<and> resolved (ri @ appended_fields (parent w) n1 n2 n3 n4 n5) n4
           (Positive_Score (parent (snd (ii_init w ri))))
       \<and> resolved (ri @ appended_fields (parent w) n1 n2 n3 n4 n5) n5
           (Compound_Score (parent (snd (ii_init w ri))))
       \<and> ii_init (snd (ii_init w ri)) ri' = (Inl TypeError, snd (ii_init w ri))"
proof -
  let ?p = "parent w"
  let ?ro = "ri @ appended_fields ?p n1 n2 n3 n4 n5"
  have ro: "ii_init_record_info_out ?p ri = Inr ?ro" by (rule record_info_out_names[OF assms(1-5)])
  have names: "{n1, n2, n3, n4, n5} \<subseteq> field_name ` set ?ro" by (simp add: appended_fields_def)
  have p': "parent (snd (ii_init w ri)) = snd (ii_init_lookups ?ro ?p)"
    by (rule ii_init_parent(1)[OF ro assms(6)])
  have flds: "resolved ?ro n1 (Sentiment_score (parent (snd (ii_init w ri))))
       \<and> resolved ?ro n2 (Negative_Score (parent (snd (ii_init w ri))))
       \<and> resolved ?ro n3 (Neutral_Score (parent (snd (ii_init w ri))))
       \<and> resolved ?ro n4 (Positive_Score (parent (snd (ii_init w ri))))
       \<and> resolved ?ro n5 (Compound_Score (parent (snd (ii_init w ri))))"
    unfolding p' by (rule ii_init_lookups_resolved[OF assms(1-5) names])
  then have "is_PyField (Sentiment_score (parent (snd (ii_init w ri))))"
    by (blast intro: resolved_is_PyField)
  then have "ii_init_record_info_out (parent (snd (ii_init w ri))) ri' = Inl TypeError"
    by (rule record_info_out_TypeError)
  then have "ii_init (snd (ii_init w ri)) ri' = (Inl TypeError, snd (ii_init w ri))"
    by (simp add: ii_init_def)
  with flds show ?thesis by simp
qed

theorem second_ii_init_raises_witness:
  "Sentiment_score (parent (configured 7 accept_all (config_selecting ''comment''))) = PyStr ''Sentiment_Output''
   \<and> Compound_Score (parent (configured 7 accept_all (config_selecting ''comment''))) = PyStr ''Compound_Score''
   \<and> resolved (id_comment_schema @ sentiment_fields) ''Sentiment_Output''
        (Sentiment_score (parent (snd (ii_init (configured 7 accept_all (config_selecting ''comment'')) id_comment_schema))))
   \<and> resolved (id_comment_schema @ sentiment_fields) ''Compound_Score''
        (Compound_Score (parent (snd (ii_init (configured 7 accept_all (config_selecting ''comment'')) id_comment_schema))))
   \<and> fst (ii_init (snd (ii_init (configured 7 accept_all (config_selecting ''comment'')) id_comment_schema)) id_comment_schema) = Inl TypeError"
  using second_ii_init_raises[where w = "configured 7 accept_all (config_selecting ''comment'')"
      and ?n1.0 = "''Sentiment_Output''" and ?n2.0 = "''Negative_Score''" and ?n3.0 = "''Neutral_Score''"
      and ?n4.0 = "''Positive_Score''" and ?n5.0 = "''Compound_Score''" and anchor = "''Output''"
      and ri = id_comment_schema and ri' = id_comment_schema]
  by (simp add: configured_parent AyxPlugin_init_def appended_fields_def sentiment_fields_def)

section \<open>Delivering a row\<close>

subsection \<open>The copier and the cached Field objects\<close>

lemma ii_init_copier_eq: "ii_init_copier ro ri = map (\<lambda>i. (i, i)) [0 ..< length ri]"
proof -
  have "foldl (\<lambda>c index. copier_add c index index) c [0 ..< n] = c @ map (\<lambda>i. (i, i)) [0 ..< n]" for c n
    by (induction n) (simp_all add: copier_add_def)
  then show ?thesis by (simp add: ii_init_copier_def done_adding_def RecordCopier_def)
qed

lemma copier_copy_from:
  "length r = n \<Longrightarrow> n \<le> length rc \<Longrightarrow> k \<le> n \<Longrightarrow>
   copier_copy (map (\<lambda>i. (i, i)) [k ..< n]) rc r = Inr (take k rc @ drop k r @ drop n rc)"
proof (induction "n - k" arbitrary: k rc)
  case 0
  then show ?case by simp
next
  case (Suc m)
  then have k: "k < n" by simp
  from Suc.hyps(2) have m: "m = n - Suc k" by simp
  have len: "length (rc[k := r ! k]) \<ge> n" using Suc.prems by simp
  have step: "copier_copy (map (\<lambda>i. (i, i)) [Suc k ..< n]) (rc[k := r ! k]) r
        = Inr (take (Suc k) (rc[k := r ! k]) @ drop (Suc k) r @ drop n (rc[k := r ! k]))"
    using Suc.hyps(1)[OF m Suc.prems(1) len] k by simp
  have t: "take (Suc k) (rc[k := r ! k]) = take k rc @ [r ! k]"
    using k Suc.prems by (simp add: take_Suc_conv_app_nth)
  have d: "drop n (rc[k := r ! k]) = drop n rc" using k by simp
  have c: "r ! k # drop (Suc k) r = drop k r" using k Suc.prems by (simp add: Cons_nth_drop_Suc)
  have "copier_copy (map (\<lambda>i. (i, i)) [k ..< n]) rc r
        = copier_copy (map (\<lambda>i. (i, i)) [Suc k ..< n]) (rc[k := r ! k]) r"
    using k Suc.prems by (simp add: upt_conv_Cons)
  also have "\<dots> = Inr (take k rc @ drop k r @ drop n rc)"
    unfolding step t d using c by simp
  finally show ?case .
qed

lemma copier_copy_identity:
  "length r = length ri \<Longrightarrow>
   copier_copy (ii_init_copier ro ri) (replicate (length ri + m) None) r = Inr (r @ replicate m None)"
  using copier_copy_from[of r "length ri" "replicate (length ri + m) None" 0]
  by (simp add: ii_init_copier_eq)

lemma lookup_in_input:
  "index_of n ri = Some k \<Longrightarrow> lookup_field (ri @ fs) (PyStr n) = Inr (PyField k (ri ! k))"
  using index_of_Some_less[of n ri k]
  by (simp add: lookup_field_def get_field_num_def getitem_def index_of_append_left nth_append)

lemma lookup_appended:
  "index_of n ri = None \<Longrightarrow> index_of n fs = Some j \<Longrightarrow>
   lookup_field (ri @ fs) (PyStr n) = Inr (PyField (length ri + j) (fs ! j))"
  using index_of_Some_less[of n fs j]
  by (simp add: lookup_field_def get_field_num_def getitem_def index_of_append_right nth_append)

lemma lookup_unknown:
  "n \<notin> field_name ` set ro \<Longrightarrow> lookup_field ro (PyStr n) = Inl FieldNotFound"
  using index_of_None_iff[of n ro]
  by (simp add: lookup_field_def get_field_num_def)

lemma fresh_names:
  assumes "field_name ` set ri \<inter> field_name ` set sentiment_fields = {}"
  shows "index_of ''Sentiment_Output'' ri = None" "index_of ''Negative_Score'' ri = None"
    "index_of ''Neutral_Score'' ri = None" "index_of ''Positive_Score'' ri = None"
    "index_of ''Compound_Score'' ri = None"
  using assms by (auto simp: index_of_None_iff sentiment_fields_def)

lemma lookups_fresh:
  assumes fresh: "field_name ` set ri \<inter> field_name ` set sentiment_fields = {}"
    and sel: "find_child str_xml ''FieldSelect'' = Some e" "elem_text e = Some name"
    and k: "index_of name ri = Some k"
  shows "ii_init_lookups (ri @ sentiment_fields) (parent (configured tool_id downstream str_xml))
         = (Inr True,
            negotiated (parent (configured tool_id downstream str_xml)) (length ri) (PyField k (ri ! k)))"
proof -
  note f = fresh_names[OF fresh]
  have l: "lookup_field (ri @ sentiment_fields) (PyStr ''Sentiment_Output'')
             = Inr (PyField (length ri) (Field_desc ''Sentiment_Output'' FT_v_wstring 100))"
    "lookup_field (ri @ sentiment_fields) (PyStr ''Negative_Score'')
             = Inr (PyField (length ri + 1) (Field_desc ''Negative_Score'' FT_double 0))"
    "lookup_field (ri @ sentiment_fields) (PyStr ''Neutral_Score'')
             = Inr (PyField (length ri + 2) (Field_desc ''Neutral_Score'' FT_double 0))"
    "lookup_field (ri @ sentiment_fields) (PyStr ''Positive_Score'')
             = Inr (PyField (length ri + 3) (Field_desc ''Positive_Score'' FT_double 0))"
    "lookup_field (ri @ sentiment_fields) (PyStr ''Compound_Score'')
             = Inr (PyField (length ri + 4) (Field_desc ''Compound_Score'' FT_double 0))"
    using lookup_appended[OF f(1), of sentiment_fields 0]
      lookup_appended[OF f(2), of sentiment_fields 1]
      lookup_appended[OF f(3), of sentiment_fields 2]
      lookup_appended[OF f(4), of sentiment_fields 3]
      lookup_appended[OF f(5), of sentiment_fields 4]
    by (simp_all add: sentiment_fields_def)
  have s: "lookup_field (ri @ sentiment_fields) (PyStr name) = Inr (PyField k (ri ! k))"
    by (rule lookup_in_input[OF k])
  show ?thesis
    by (simp add: ii_init_lookups_def Let_def configured_parent AyxPlugin_init_def sel l s negotiated_def)
qed

subsection \<open>The row pushed by a negotiated plugin\<close>

lemma write_outputs_negotiated:
  assumes "length r = n"
  shows "write_outputs (negotiated p n fld) (r @ replicate 5 None) out a b c d
         = (Inr (), r @ [Some (take 100 out), Some a, Some b, Some c, Some d])"
  using assms
  by (simp add: write_outputs_def negotiated_def set_from_string_def stored_text_def
      is_string_type_def list_update_append numeral_eq_Suc)

lemma analyse_row_negotiated:
  assumes "length r = n"
    and "plain_decimal (R (neg (A sentence)))" "plain_decimal (R (neu (A sentence)))"
        "plain_decimal (R (pos (A sentence)))" "plain_decimal (R (compound (A sentence)))"
  shows "analyse_row A R (negotiated p n fld) (r @ replicate 5 None) sentence
         = (Inr (r @ [Some (take 100 (str_polarity R (A sentence))),
                    Some (R (neg (A sentence))), Some (R (neu (A sentence))),
                    Some (R (pos (A sentence))), Some (R (compound (A sentence)))]),
            r @ [Some (take 100 (str_polarity R (A sentence))),
                    Some (R (neg (A sentence))), Some (R (neu (A sentence))),
                    Some (R (pos (A sentence))), Some (R (compound (A sentence)))])"
  using findall_str_polarity[OF assms(2-5)] write_outputs_negotiated[OF assms(1)]
  by (simp add: analyse_row_def Let_def py_index_def finalize_record_def)

lemma host_push_single:
  "snd (host_push_records A R w [r]) = snd (ii_push_record A R w r)"
  "fst (host_push_records A R w [r]) = fst (ii_push_record A R w r)"
  by (simp_all split: prod.splits sum.splits bool.splits)

lemma ii_push_record_negotiated_state:
  assumes c: "record_creator (self_ii w) = Some rc0" "length rc0 = length ri + 5"
    and cp: "record_copier (self_ii w) = Some (ii_init_copier ro ri)"
    and p: "parent w = negotiated p0 (length ri) (PyField k f)"
    and a: "output_anchor p0 = Bound anchor"
    and k: "k < length ri" and ws: "well_scored A R ri k r"
  shows "ii_push_record A R w r =
           (Inr (accepts w (events w) (augmented A R k r)),
            w\<lparr>self_ii := (self_ii w)\<lparr>record_creator := Some (augmented A R k r)\<rparr>,
              events := events w @ [Anchor_push_record (augmented A R k r)]\<rparr>)"
proof -
  from ws obtain sentence where len: "length r = length ri" and sent: "r ! k = Some sentence"
    and dec: "plain_decimal (R (neg (A sentence)))" "plain_decimal (R (neu (A sentence)))"
        "plain_decimal (R (pos (A sentence)))" "plain_decimal (R (compound (A sentence)))"
    by (auto simp: well_scored_def split: option.splits)
  note an = analyse_row_negotiated[where A = A and R = R and sentence = sentence and r = r
      and n = "length ri" and p = p0 and fld = "PyField k f", OF len dec]
  have rs: "reset rc0 = replicate (length ri + 5) None" by (simp add: reset_def c(2))
  have cc: "copier_copy (ii_init_copier ro ri) (replicate (length ri + 5) None) r
              = Inr (r @ replicate 5 None)"
    by (rule copier_copy_identity[OF len])
  have g: "get_as_string (PyField k f) r = Inr (Some sentence)"
    using k len sent by (simp add: get_as_string_def)
  have oa: "output_anchor (negotiated p0 (length ri) (PyField k f)) = Bound anchor"
    using a by (simp add: negotiated_def)
  have inf: "input_field (negotiated p0 (length ri) (PyField k f)) = Bound (PyField k f)"
    by (simp add: negotiated_def)
  have au: "augmented A R k r = r @ [Some (take 100 (str_polarity R (A sentence))),
               Some (R (neg (A sentence))), Some (R (neu (A sentence))),
               Some (R (pos (A sentence))), Some (R (compound (A sentence)))]"
    by (simp add: augmented_def sent)
  show ?thesis
    unfolding au
    by (simp add: ii_push_record_def Let_def c(1) rs cp p set_creator_def cc g an oa inf
        push_out_record_def emit_def)
qed

lemma host_push_records_negotiated:
  assumes "record_creator (self_ii w) = Some rc0" "length rc0 = length ri + 5"
    and "record_copier (self_ii w) = Some (ii_init_copier ro ri)"
    and "parent w = negotiated p0 (length ri) (PyField k f)"
    and "output_anchor p0 = Bound anchor"
    and "k < length ri" and "list_all (well_scored A R ri k) rows"
    and "\<And>ev out. accepts w ev out"
  shows "fst (host_push_records A R w rows) = Inr True
       \<and> pushed_rows (snd (host_push_records A R w rows)) = pushed_rows w @ map (augmented A R k) rows"
  using assms
proof (induction rows arbitrary: w rc0)
  case Nil
  then show ?case by simp
next
  case (Cons r rows)
  let ?out = "augmented A R k r"
  let ?w' = "w\<lparr>self_ii := (self_ii w)\<lparr>record_creator := Some ?out\<rparr>,
              events := events w @ [Anchor_push_record ?out]\<rparr>"
  from Cons.prems(7) have ws: "well_scored A R ri k r" and rest: "list_all (well_scored A R ri k) rows"
    by simp_all
  have step: "ii_push_record A R w r = (Inr True, ?w')"
    using ii_push_record_negotiated_state[OF Cons.prems(1-6) ws] Cons.prems(8) by simp
  have lo: "length ?out = length ri + 5"
    using ws by (auto simp: augmented_def well_scored_def split: option.splits)
  have ih: "fst (host_push_records A R ?w' rows) = Inr True
       \<and> pushed_rows (snd (host_push_records A R ?w' rows)) = pushed_rows ?w' @ map (augmented A R k) rows"
    by (rule Cons.IH[of ?w' ?out]) (simp_all add: lo Cons.prems rest)
  have pw: "pushed_rows ?w' = pushed_rows w @ [?out]" by (simp add: pushed_rows_def)
  show ?case using ih by (simp add: step pw)
qed

lemma negotiated_pushed_rows:
  "pushed_rows (snd (ii_init (configured tool_id downstream str_xml) ri)) = []"
  using ii_init_parent(3)[OF configured_record_info_out configured_anchor, of tool_id downstream str_xml ri]
  by (simp add: pushed_rows_def configured_events split: option.splits)

lemma run_stream_negotiated:
  "fst (ii_init (configured tool_id downstream str_xml) ri) = Inr True \<Longrightarrow>
   run_stream A R tool_id downstream str_xml ri rows
     = host_push_records A R (snd (ii_init (configured tool_id downstream str_xml) ri)) rows"
  by (cases "ii_init (configured tool_id downstream str_xml) ri") (simp add: run_stream_def)

lemma run_stream_not_negotiated:
  "fst (ii_init (configured tool_id downstream str_xml) ri) \<noteq> Inr True \<Longrightarrow>
   run_stream A R tool_id downstream str_xml ri rows
     = ii_init (configured tool_id downstream str_xml) ri"
  by (cases "ii_init (configured tool_id downstream str_xml) ri")
     (auto simp add: run_stream_def split: sum.splits bool.splits)

lemma love_text:
  "str_polarity printed (love_scores s) =
     ''{'' @ py_quote ''neg'' @ '': 0.0, '' @ py_quote ''neu'' @ '': 0.323, ''
       @ py_quote ''pos'' @ '': 0.677, '' @ py_quote ''compound'' @ '': 0.6369}''"
  by (simp add: str_polarity_def printed_def love_scores_def)

text \<open>
  Where the incoming schema has none of the five names, a delivered row whose sentence
  is not null is pushed followed by the printed result, cut at 100 characters, and the
  four printed scores, whatever the downstream consumer answers; and a consumer that
  accepts what it is given receives every row of the stream so.
\<close>

lemma fresh_schema_first_row_augmented:
  assumes sel: "find_child str_xml ''FieldSelect'' = Some e" "elem_text e = Some name"
    and k: "index_of name ri = Some k"
    and fresh: "field_name ` set ri \<inter> field_name ` set sentiment_fields = {}"
    and row: "well_scored A R ri k r"
  shows "pushed_rows (snd (run_stream A R tool_id downstream str_xml ri [r])) = [augmented A R k r]"
proof -
  let ?w0 = "configured tool_id downstream str_xml"
  let ?ro = "ri @ sentiment_fields"
  let ?w1 = "snd (ii_init ?w0 ri)"
  note ini = ii_init_parent[OF configured_record_info_out configured_anchor, of tool_id downstream str_xml ri]
  note lk = lookups_fresh[OF fresh sel k, of tool_id downstream]
  have ok: "fst (ii_init ?w0 ri) = Inr True" using ini(2) lk by simp
  have p: "parent ?w1 = negotiated (parent ?w0) (length ri) (PyField k (ri ! k))"
    using ini(1) lk by simp
  have lro: "length (construct_record_creator ?ro) = length ri + 5"
    by (simp add: construct_record_creator_def sentiment_fields_def)
  have c: "record_creator (self_ii ?w1) = Some (construct_record_creator ?ro)"
    using ini(4) by simp
  have cp: "record_copier (self_ii ?w1) = Some (ii_init_copier ?ro ri)"
    using ini(4) by simp
  have kl: "k < length ri" using k by (simp add: index_of_Some_less)
  note st = ii_push_record_negotiated_state[where A = A and R = R and anchor = "''Output''",
      OF c lro cp p configured_anchor kl row]
  have rs: "snd (run_stream A R tool_id downstream str_xml ri [r]) = snd (ii_push_record A R ?w1 r)"
    by (simp only: run_stream_negotiated[OF ok] host_push_single)
  show ?thesis
    unfolding rs st using negotiated_pushed_rows[of tool_id downstream str_xml ri]
    by (simp add: pushed_rows_def)
qed

lemma fresh_schema_rows_augmented:
  assumes sel: "find_child str_xml ''FieldSelect'' = Some e" "elem_text e = Some name"
    and k: "index_of name ri = Some k"
    and fresh: "field_name ` set ri \<inter> field_name ` set sentiment_fields = {}"
    and rows: "list_all (well_scored A R ri k) rows"
    and acc: "\<And>ev out. downstream ev out"
  shows "fst (run_stream A R tool_id downstream str_xml ri rows) = Inr True
       \<and> pushed_rows (snd (run_stream A R tool_id downstream str_xml ri rows))
           = map (augmented A R k) rows"
proof -
  let ?w0 = "configured tool_id downstream str_xml"
  let ?ro = "ri @ sentiment_fields"
  let ?w1 = "snd (ii_init ?w0 ri)"
  note ini = ii_init_parent[OF configured_record_info_out configured_anchor, of tool_id downstream str_xml ri]
  note lk = lookups_fresh[OF fresh sel k, of tool_id downstream]
  have ok: "fst (ii_init ?w0 ri) = Inr True" using ini(2) lk by simp
  have p: "parent ?w1 = negotiated (parent ?w0) (length ri) (PyField k (ri ! k))"
    using ini(1) lk by simp
  have lro: "length (construct_record_creator ?ro) = length ri + 5"
    by (simp add: construct_record_creator_def sentiment_fields_def)
  have c: "record_creator (self_ii ?w1) = Some (construct_record_creator ?ro)"
    using ini(4) by simp
  have cp: "record_copier (self_ii ?w1) = Some (ii_init_copier ?ro ri)"
    using ini(4) by simp
  have kl: "k < length ri" using k by (simp add: index_of_Some_less)
  have ac: "accepts ?w1 ev out" for ev out
    using acc by (simp add: ini(5) configured_accepts)
  have "fst (host_push_records A R ?w1 rows) = Inr True
       \<and> pushed_rows (snd (host_push_records A R ?w1 rows)) = pushed_rows ?w1 @ map (augmented A R k) rows"
    by (rule host_push_records_negotiated[where anchor = "''Output''", OF c lro cp p configured_anchor kl rows ac])
  then show ?thesis
    by (simp add: run_stream_negotiated[OF ok] negotiated_pushed_rows)
qed

text \<open>
  Claim C6: for every row with a non-null configured text field, the adapter writes into
  Sentiment_Output the printed form of the analyzer's four-score result (bounded to the
  capacity of 100), and into Negative_Score, Neutral_Score, Positive_Score and
  Compound_Score the first four numeric substrings found in that text, so that each
  numeric field equals the analyzer's corresponding score.

  The values are written through the Field objects that \<open>ii_init\<close> looked up by name in
  the outgoing schema. For the incoming schema (comment, Compound_Score) whose second
  field is a string field of capacity 3, the selection of comment and the row
  ("I love this product", "n/a"), the compound score 0.6369 is written through the
  incoming field: the row pushed holds 0.6 there, the appended Compound_Score field stays
  unset, and no field of the row holds the analyzer's compound score.
\<close>

theorem compound_score_misplaced:
  "pushed_rows (snd (run_stream love_scores printed 7 accept_all (config_selecting ''comment'')
        comment_capped_score_schema [[Some ''I love this product'', Some ''n/a'']]))
     = [[Some ''I love this product'', Some ''0.6'',
         Some (str_polarity printed (love_scores ''I love this product'')),
         Some ''0.0'', Some ''0.323'', Some ''0.677'', None]]
   \<and> printed (compound (love_scores ''I love this product'')) = ''0.6369''"
proof (intro conjI)
  show "pushed_rows (snd (run_stream love_scores printed 7 accept_all (config_selecting ''comment'')
        comment_capped_score_schema [[Some ''I love this product'', Some ''n/a'']]))
     = [[Some ''I love this product'', Some ''0.6'',
         Some (str_polarity printed (love_scores ''I love this product'')),
         Some ''0.0'', Some ''0.323'', Some ''0.677'', None]]"
    by (simp add: plugin_defs sdk_defs Let_def love_values upt_rec config_selecting_def
        comment_capped_score_schema_def accept_all_def)
       (simp add: love_text py_quote_def)
  show "printed (compound (love_scores ''I love this product'')) = ''0.6369''"
    by (simp add: printed_def love_scores_def)
qed

section \<open>Configuration errors\<close>

lemma ii_init_lookups_fst:
  assumes "Sentiment_score p = PyStr n1" "Negative_Score p = PyStr n2" "Neutral_Score p = PyStr n3"
    "Positive_Score p = PyStr n4" "Compound_Score p = PyStr n5"
    and "{n1, n2, n3, n4, n5} \<subseteq> field_name ` set ro"
  shows "fst (ii_init_lookups ro p) =
           (case field_selection p of
              Unbound \<Rightarrow> Inl AttributeError
            | Bound sel \<Rightarrow> (case lookup_field ro sel of Inl e \<Rightarrow> Inl e | Inr f \<Rightarrow> Inr True))"
proof -
  from assms(6) have "n1 \<in> field_name ` set ro" by simp
  then obtain i1 where l1: "lookup_field ro (PyStr n1) = Inr (PyField i1 (ro ! i1))"
    using lookup_field_name by blast
  from assms(6) have "n2 \<in> field_name ` set ro" by simp
  then obtain i2 where l2: "lookup_field ro (PyStr n2) = Inr (PyField i2 (ro ! i2))"
    using lookup_field_name by blast
  from assms(6) have "n3 \<in> field_name ` set ro" by simp
  then obtain i3 where l3: "lookup_field ro (PyStr n3) = Inr (PyField i3 (ro ! i3))"
    using lookup_field_name by blast
  from assms(6) have "n4 \<in> field_name ` set ro" by simp
  then obtain i4 where l4: "lookup_field ro (PyStr n4) = Inr (PyField i4 (ro ! i4))"
    using lookup_field_name by blast
  from assms(6) have "n5 \<in> field_name ` set ro" by simp
  then obtain i5 where l5: "lookup_field ro (PyStr n5) = Inr (PyField i5 (ro ! i5))"
    using lookup_field_name by blast
  show ?thesis
    by (simp add: ii_init_lookups_def Let_def assms(1-5) l1 l2 l3 l4 l5 split: slot.splits sum.splits)
qed

lemma ii_init_lookups_input_field:
  "fst (ii_init_lookups ro p) \<noteq> Inr True \<Longrightarrow>
   input_field (snd (ii_init_lookups ro p)) = input_field p"
  by (simp add: ii_init_lookups_def Let_def split: slot.splits sum.splits)

lemma configured_lookups_fst:
  "fst (ii_init (configured tool_id downstream str_xml) ri) =
     (case find_child str_xml ''FieldSelect'' of
        None \<Rightarrow> Inl AttributeError
      | Some e \<Rightarrow>
          (case lookup_field (ri @ sentiment_fields)
                  (case elem_text e of None \<Rightarrow> PyNone | Some s \<Rightarrow> PyStr s) of
             Inl err \<Rightarrow> Inl err
           | Inr f \<Rightarrow> Inr True))"
proof -
  let ?p = "parent (configured tool_id downstream str_xml)"
  have "fst (ii_init_lookups (ri @ sentiment_fields) ?p) =
           (case field_selection ?p of
              Unbound \<Rightarrow> Inl AttributeError
            | Bound sel \<Rightarrow> (case lookup_field (ri @ sentiment_fields) sel of Inl e \<Rightarrow> Inl e | Inr f \<Rightarrow> Inr True))"
    by (rule ii_init_lookups_fst[where ?n1.0 = "''Sentiment_Output''" and ?n2.0 = "''Negative_Score''"
          and ?n3.0 = "''Neutral_Score''" and ?n4.0 = "''Positive_Score''" and ?n5.0 = "''Compound_Score''"])
       (simp_all add: configured_parent AyxPlugin_init_def sentiment_fields_def)
  then show ?thesis
    using ii_init_parent(2)[OF configured_record_info_out configured_anchor, of tool_id downstream str_xml ri]
    by (simp add: configured_parent split: option.splits)
qed

lemma configured_not_negotiated:
  assumes "fst (ii_init (configured tool_id downstream str_xml) ri) \<noteq> Inr True"
  shows "input_field (parent (snd (ii_init (configured tool_id downstream str_xml) ri))) = Unbound"
proof -
  note ini = ii_init_parent[OF configured_record_info_out configured_anchor, of tool_id downstream str_xml ri]
  from assms have "fst (ii_init_lookups (ri @ sentiment_fields) (parent (configured tool_id downstream str_xml))) \<noteq> Inr True"
    by (simp add: ini(2))
  then show ?thesis unfolding ini(1)
    by (simp add: ii_init_lookups_input_field configured_parent AyxPlugin_init_def)
qed

lemma ii_push_record_unbound_input_field:
  assumes "input_field (parent w) = Unbound"
  shows "isl (fst (ii_push_record A R w r))" and "events (snd (ii_push_record A R w r)) = events w"
  using assms
  by (simp_all add: ii_push_record_def Let_def set_creator_def split: option.splits sum.splits)

lemma ii_push_record_events:
  "(isl (fst (ii_push_record A R w r)) \<and> events (snd (ii_push_record A R w r)) = events w)
   \<or> (\<exists>out. fst (ii_push_record A R w r) = Inr (accepts w (events w) out)
            \<and> events (snd (ii_push_record A R w r)) = events w @ [Anchor_push_record out])"
  by (auto simp add: ii_push_record_def Let_def set_creator_def push_out_record_def emit_def
      split: option.splits sum.splits slot.splits prod.splits)

text \<open>
  Claim C2: if the field-selection configuration value is absent or empty, the adapter
  surfaces a configuration error to its host and does not proceed: no output anchor
  activity occurs, no schema negotiation, and no row processing.

  What the code does when the FieldSelect element is absent: \<open>pi_init\<close> reports the error
  message, leaves \<open>field_selection\<close> unassigned and obtains the output anchor all the same.
  Schema negotiation then publishes the outgoing schema and ends in \<^verbatim>\<open>AttributeError\<close> at
  the read of \<open>field_selection\<close>; a stream run stops there, and a row delivered
  nevertheless ends in an exception without a push.
\<close>

theorem missing_field_select:
  assumes "find_child str_xml ''FieldSelect'' = None"
  shows "events (configured tool_id downstream str_xml)
           = [Output_message tool_id MT_error ''Please select field to analyze'',
              Get_output_anchor ''Output'']
       \<and> field_selection (parent (configured tool_id downstream str_xml)) = Unbound
       \<and> run_stream A R tool_id downstream str_xml ri rows = ii_init (configured tool_id downstream str_xml) ri
       \<and> fst (ii_init (configured tool_id downstream str_xml) ri) = Inl AttributeError
       \<and> events (snd (ii_init (configured tool_id downstream str_xml) ri))
           = events (configured tool_id downstream str_xml) @ [Anchor_init (ri @ sentiment_fields)]
       \<and> isl (fst (ii_push_record A R (snd (ii_init (configured tool_id downstream str_xml) ri)) r))
       \<and> events (snd (ii_push_record A R (snd (ii_init (configured tool_id downstream str_xml) ri)) r))
           = events (snd (ii_init (configured tool_id downstream str_xml) ri))"
proof -
  let ?w0 = "configured tool_id downstream str_xml"
  have f: "fst (ii_init ?w0 ri) = Inl AttributeError"
    by (simp add: configured_lookups_fst assms)
  then have nt: "fst (ii_init ?w0 ri) \<noteq> Inr True" by simp
  note un = configured_not_negotiated[OF nt]
  show ?thesis
    using f run_stream_not_negotiated[OF nt, of A R rows]
      ii_init_parent(3)[OF configured_record_info_out configured_anchor, of tool_id downstream str_xml ri]
      ii_push_record_unbound_input_field[OF un, of A R r]
    by (simp add: configured_events configured_parent assms)
qed

theorem missing_field_select_witness:
  "find_child config_without_selection ''FieldSelect'' = None
   \<and> run_stream love_scores printed 7 accept_all config_without_selection id_comment_schema
        [[Some ''1'', Some ''I love this product'']]
      = ii_init (configured 7 accept_all config_without_selection) id_comment_schema
   \<and> fst (ii_init (configured 7 accept_all config_without_selection) id_comment_schema) = Inl AttributeError"
  using missing_field_select[where str_xml = config_without_selection and A = love_scores
      and R = printed and tool_id = 7 and downstream = accept_all and ri = id_comment_schema
      and rows = "[[Some ''1'', Some ''I love this product'']]"]
  by (simp add: find_child_def config_without_selection_def)

text \<open>
  With the element absent the output anchor is obtained and the outgoing schema is
  published; with the element present and empty no error message is reported.
\<close>

theorem configuration_error_counterexample:
  "events (snd (run_stream love_scores printed 7 accept_all config_without_selection id_comment_schema
        [[Some ''1'', Some ''I love this product'']]))
     = [Output_message 7 MT_error ''Please select field to analyze'',
        Get_output_anchor ''Output'',
        Anchor_init (id_comment_schema @ sentiment_fields)]
   \<and> find_child config_empty_selection ''FieldSelect'' = Some (Element ''FieldSelect'' None [])
   \<and> events (configured 7 accept_all config_empty_selection) = [Get_output_anchor ''Output'']"
  by (simp add: plugin_defs sdk_defs scenario_defs sentiment_fields_def upt_rec)

text \<open>
  A configured name that is neither an incoming field nor one of the five new names makes
  \<open>ii_init\<close> end in the lookup error, after the outgoing schema was published;
  \<open>input_field\<close> stays unassigned and a stream run delivers no row.
\<close>

lemma unresolved_field_name:
  assumes "find_child str_xml ''FieldSelect'' = Some e" "elem_text e = Some name"
    and "name \<notin> field_name ` set (ri @ sentiment_fields)"
  shows "run_stream A R tool_id downstream str_xml ri rows = ii_init (configured tool_id downstream str_xml) ri
       \<and> fst (ii_init (configured tool_id downstream str_xml) ri) = Inl FieldNotFound
       \<and> events (snd (ii_init (configured tool_id downstream str_xml) ri))
           = [Get_output_anchor ''Output'', Anchor_init (ri @ sentiment_fields)]
       \<and> input_field (parent (snd (ii_init (configured tool_id downstream str_xml) ri))) = Unbound"
proof -
  let ?w0 = "configured tool_id downstream str_xml"
  have f: "fst (ii_init ?w0 ri) = Inl FieldNotFound"
    using lookup_unknown[OF assms(3)] by (simp add: configured_lookups_fst assms(1,2))
  then have nt: "fst (ii_init ?w0 ri) \<noteq> Inr True" by simp
  show ?thesis
    using f run_stream_not_negotiated[OF nt, of A R rows] configured_not_negotiated[OF nt]
      ii_init_parent(3)[OF configured_record_info_out configured_anchor, of tool_id downstream str_xml ri]
    by (simp add: configured_events assms(1))
qed

text \<open>
  Claim C3: if the configured field name cannot be resolved against the Input Schema
  during schema negotiation, the adapter reports this as a configuration error and does
  not process rows.

  The code looks the configured name up in the outgoing schema, the incoming fields
  followed by the five new ones. For the schema (id, comment) and the selection of
  Negative_Score, a name that no incoming field bears, the lookup finds the appended
  field at position 3: \<open>ii_init\<close> returns success and nothing is reported. The delivery
  of a row then reads position 3 of a row of two fields, and ends in an error without
  a push.
\<close>

theorem new_field_name_resolves:
  "index_of ''Negative_Score'' id_comment_schema = None
   \<and> fst (ii_init (configured 7 accept_all (config_selecting ''Negative_Score'')) id_comment_schema)
       = Inr True
   \<and> input_field (parent (snd (ii_init (configured 7 accept_all (config_selecting ''Negative_Score'')) id_comment_schema)))
       = Bound (PyField 3 (Field_desc ''Negative_Score'' FT_double 0))
   \<and> fst (run_stream love_scores printed 7 accept_all (config_selecting ''Negative_Score'')
        id_comment_schema [[Some ''1'', Some ''I love this product'']]) = Inl RecordLayoutError
   \<and> events (snd (run_stream love_scores printed 7 accept_all (config_selecting ''Negative_Score'')
        id_comment_schema [[Some ''1'', Some ''I love this product'']]))
       = [Get_output_anchor ''Output'', Anchor_init (id_comment_schema @ sentiment_fields)]"
  by (simp add: plugin_defs sdk_defs scenario_defs sentiment_fields_def upt_rec)

section \<open>The original fields\<close>

text \<open>
  Where no field of the incoming schema bears one of the five names, a row that is pushed
  starts with the incoming row.
\<close>

lemma analyse_row_negotiated_frame:
  assumes "length r = n"
    and "analyse_row A R (negotiated p n fld) (r @ replicate 5 None) s = (Inr out, rc)"
  shows "\<exists>cells. out = r @ cells"
  using assms
  by (auto simp add: analyse_row_def Let_def write_outputs_negotiated finalize_record_def
      split: sum.splits)

lemma ii_push_record_negotiated_frame:
  assumes c: "record_creator (self_ii w) = Some (replicate (length ri + 5) None)"
    and cp: "record_copier (self_ii w) = Some (ii_init_copier ro ri)"
    and p: "parent w = negotiated p0 (length ri) (PyField k f)"
    and len: "length r = length ri"
  shows "pushed_rows (snd (ii_push_record A R w r)) = pushed_rows w
       \<or> (\<exists>cells. pushed_rows (snd (ii_push_record A R w r)) = pushed_rows w @ [r @ cells])"
proof -
  have cc: "copier_copy (ii_init_copier ro ri) (replicate (length ri + 5) None) r
              = Inr (r @ replicate 5 None)"
    by (rule copier_copy_identity[OF len])
  note fr = analyse_row_negotiated_frame[where A = A and R = R and r = r and n = "length ri"
      and p = p0 and fld = "PyField k f", OF len]
  show ?thesis
    by (auto dest: fr simp add: ii_push_record_def Let_def c cp p reset_def set_creator_def cc
        push_out_record_def emit_def pushed_rows_def
        split: sum.splits slot.splits option.splits prod.splits)
qed

lemma original_fields_kept:
  assumes sel: "find_child str_xml ''FieldSelect'' = Some e" "elem_text e = Some name"
    and k: "index_of name ri = Some k"
    and fresh: "field_name ` set ri \<inter> field_name ` set sentiment_fields = {}"
    and len: "length r = length ri"
  shows "pushed_rows (snd (run_stream A R tool_id downstream str_xml ri [r])) = []
       \<or> (\<exists>cells. pushed_rows (snd (run_stream A R tool_id downstream str_xml ri [r])) = [r @ cells])"
proof -
  let ?w0 = "configured tool_id downstream str_xml"
  let ?ro = "ri @ sentiment_fields"
  let ?w1 = "snd (ii_init ?w0 ri)"
  note ini = ii_init_parent[OF configured_record_info_out configured_anchor, of tool_id downstream str_xml ri]
  note lk = lookups_fresh[OF fresh sel k, of tool_id downstream]
  have ok: "fst (ii_init ?w0 ri) = Inr True" using ini(2) lk by simp
  have p: "parent ?w1 = negotiated (parent ?w0) (length ri) (PyField k (ri ! k))"
    using ini(1) lk by simp
  have lro: "length ?ro = length ri + 5" by (simp add: sentiment_fields_def)
  have "record_creator (self_ii ?w1) = Some (construct_record_creator ?ro)"
    using ini(4) by simp
  then have c: "record_creator (self_ii ?w1) = Some (replicate (length ri + 5) None)"
    by (simp only: construct_record_creator_def lro)
  have cp: "record_copier (self_ii ?w1) = Some (ii_init_copier ?ro ri)"
    using ini(4) by simp
  have rs: "snd (run_stream A R tool_id downstream str_xml ri [r]) = snd (ii_push_record A R ?w1 r)"
    by (simp only: run_stream_negotiated[OF ok] host_push_single)
  show ?thesis
    unfolding rs
    using ii_push_record_negotiated_frame[where A = A and R = R, OF c cp p len]
    by (simp add: negotiated_pushed_rows)
qed

text \<open>
  Claim C5: for every well-formed input row with a non-null configured text field, the
  emitted output row's values at the original field positions equal the input row's
  values, position by position.

  The Field objects that the sentiment values are written through are looked up by name
  in the outgoing schema, and the lookup finds the first field of that name. For the
  incoming schema (comment, Compound_Score), the selection of comment and the row
  ("I love this product", 0.5), the compound score is written over the incoming value at
  position 1, and the appended Compound_Score field stays unset.
\<close>

theorem original_field_overwritten:
  "pushed_rows (snd (run_stream love_scores printed 7 accept_all (config_selecting ''comment'')
        comment_score_schema [[Some ''I love this product'', Some ''0.5'']]))
     = [[Some ''I love this product'', Some ''0.6369'',
         Some (str_polarity printed (love_scores ''I love this product'')),
         Some ''0.0'', Some ''0.323'', Some ''0.677'', None]]"
  by (simp add: plugin_defs sdk_defs Let_def love_values upt_rec config_selecting_def
      comment_score_schema_def accept_all_def)
     (simp add: love_text py_quote_def)

section \<open>Downstream refusal\<close>

lemma pushed_rows_events:
  "events w' = events w \<Longrightarrow> pushed_rows w' = pushed_rows w"
  "events w' = events w @ [Anchor_push_record out] \<Longrightarrow> pushed_rows w' = pushed_rows w @ [out]"
  by (simp_all add: pushed_rows_def)

text \<open>
  Claim C7: if the downstream consumer refuses the pushed output row, the row-delivery
  callback returns failure immediately and no further rows are processed for the current
  stream run; no retry is attempted.

  When a delivery pushes a row and the consumer refuses it, the callback returns
  \<^verbatim>\<open>False\<close>, the push is the one event of the delivery, and the host's row loop ends with
  that state, whatever rows remain.
\<close>

theorem downstream_refusal:
  assumes pushed: "pushed_rows (snd (ii_push_record A R w r)) = pushed_rows w @ [out]"
    and refused: "\<not> accepts w (events w) out"
  shows "fst (ii_push_record A R w r) = Inr False
       \<and> events (snd (ii_push_record A R w r)) = events w @ [Anchor_push_record out]
       \<and> host_push_records A R w (r # rest) = (Inr False, snd (ii_push_record A R w r))"
proof -
  let ?res = "ii_push_record A R w r"
  from ii_push_record_events[of A R w r]
  consider (raised) "isl (fst ?res)" "events (snd ?res) = events w"
    | (pushed) out' where "fst ?res = Inr (accepts w (events w) out')"
        "events (snd ?res) = events w @ [Anchor_push_record out']"
    by blast
  then show ?thesis
  proof cases
    case raised
    from raised(2) have "pushed_rows (snd ?res) = pushed_rows w" by (rule pushed_rows_events(1))
    with pushed show ?thesis by simp
  next
    case pushed
    from pushed(2) have "pushed_rows (snd ?res) = pushed_rows w @ [out']"
      by (rule pushed_rows_events(2))
    with assms(1) have eq: "out' = out" by simp
    with pushed(1) refused have f: "fst ?res = Inr False" by simp
    have "host_push_records A R w (r # rest) = (Inr False, snd ?res)"
      using f by (cases ?res) simp
    with f pushed(2) eq show ?thesis by simp
  qed
qed

theorem downstream_refusal_witness:
  "pushed_rows (snd (ii_push_record love_scores printed negotiated_refusing
        [Some ''1'', Some ''I love this product'']))
     = pushed_rows negotiated_refusing @
       [[Some ''1'', Some ''I love this product'',
         Some (str_polarity printed (love_scores ''I love this product'')),
         Some ''0.0'', Some ''0.323'', Some ''0.677'', Some ''0.6369'']]
   \<and> fst (ii_push_record love_scores printed negotiated_refusing
        [Some ''1'', Some ''I love this product'']) = Inr False
   \<and> host_push_records love_scores printed negotiated_refusing
        [[Some ''1'', Some ''I love this product''], [Some ''2'', Some ''so so'']]
     = (Inr False, snd (ii_push_record love_scores printed negotiated_refusing
        [Some ''1'', Some ''I love this product'']))"
proof -
  have h1: "pushed_rows (snd (ii_push_record love_scores printed negotiated_refusing
        [Some ''1'', Some ''I love this product'']))
     = pushed_rows negotiated_refusing @
       [[Some ''1'', Some ''I love this product'',
         Some (str_polarity printed (love_scores ''I love this product'')),
         Some ''0.0'', Some ''0.323'', Some ''0.677'', Some ''0.6369'']]"
    by (simp add: negotiated_refusing_def plugin_defs sdk_defs Let_def love_values upt_rec
          config_selecting_def id_comment_schema_def)
       (simp add: love_text py_quote_def)
  have h2: "\<not> accepts negotiated_refusing (events negotiated_refusing)
       [Some ''1'', Some ''I love this product'',
         Some (str_polarity printed (love_scores ''I love this product'')),
         Some ''0.0'', Some ''0.323'', Some ''0.677'', Some ''0.6369'']"
    by (simp add: negotiated_refusing_def plugin_defs sdk_defs Let_def upt_rec
          config_selecting_def id_comment_schema_def refuse_all_def)
  from downstream_refusal[OF h1 h2, of "[[Some ''2'', Some ''so so'']]"] h1 show ?thesis by simp
qed

section \<open>Two runs over the same row\<close>

lemma write_outputs_tool_id:
  "write_outputs (p\<lparr>n_tool_id := t\<rparr>) rc out a b c d = write_outputs p rc out a b c d"
  by (simp add: write_outputs_def cong: sum.case_cong)

lemma analyse_row_tool_id:
  "analyse_row A R (p\<lparr>n_tool_id := t\<rparr>) rc s = analyse_row A R p rc s"
  by (simp add: analyse_row_def write_outputs_tool_id Let_def cong: sum.case_cong)

lemma ii_init_lookups_tool_id:
  "ii_init_lookups ro (p\<lparr>n_tool_id := t\<rparr>)
     = (fst (ii_init_lookups ro p), (snd (ii_init_lookups ro p))\<lparr>n_tool_id := t\<rparr>)"
  by (simp add: ii_init_lookups_def Let_def split: sum.splits slot.splits)

lemma ii_push_record_tool_id:
  assumes "self_ii w' = self_ii w" "parent w' = (parent w)\<lparr>n_tool_id := t\<rparr>"
    "pushed_rows w' = pushed_rows w"
  shows "pushed_rows (snd (ii_push_record A R w' r)) = pushed_rows (snd (ii_push_record A R w r))"
  using assms
  by (auto simp add: ii_push_record_def Let_def set_creator_def push_out_record_def emit_def
      pushed_rows_def analyse_row_tool_id split: option.splits sum.splits slot.splits prod.splits)

text \<open>
  Claim C9: two runs that push the same input row through freshly initialised adapter
  instances with the same configuration and Input Schema emit identical output rows, the
  analyzer being a function.

  The two instances may differ in their tool id and in their downstream consumer.
\<close>

theorem same_row_same_output:
  "pushed_rows (snd (run_stream A R tool_id downstream str_xml ri [r]))
   = pushed_rows (snd (run_stream A R tool_id' downstream' str_xml ri [r]))"
proof -
  let ?w0 = "configured tool_id downstream str_xml"
  let ?w0' = "configured tool_id' downstream' str_xml"
  let ?w1 = "snd (ii_init ?w0 ri)"
  let ?w1' = "snd (ii_init ?w0' ri)"
  note ini = ii_init_parent[OF configured_record_info_out configured_anchor, of tool_id downstream str_xml ri]
  note ini' = ii_init_parent[OF configured_record_info_out configured_anchor, of tool_id' downstream' str_xml ri]
  have p0: "parent ?w0' = (parent ?w0)\<lparr>n_tool_id := tool_id'\<rparr>"
    by (simp add: configured_parent AyxPlugin_init_def)
  have f: "fst (ii_init ?w0' ri) = fst (ii_init ?w0 ri)"
    by (simp add: configured_lookups_fst)
  have p1: "parent ?w1' = (parent ?w1)\<lparr>n_tool_id := tool_id'\<rparr>"
    unfolding ini(1) ini'(1) p0 by (simp add: ii_init_lookups_tool_id)
  have s1: "self_ii ?w1' = self_ii ?w1" by (simp add: ini(4) ini'(4))
  have e1: "pushed_rows ?w1' = pushed_rows ?w1" by (simp add: negotiated_pushed_rows)
  show ?thesis
  proof (cases "fst (ii_init ?w0 ri) = Inr True")
    case True
    with f have True': "fst (ii_init ?w0' ri) = Inr True" by simp
    have "snd (run_stream A R tool_id downstream str_xml ri [r]) = snd (ii_push_record A R ?w1 r)"
      by (simp only: run_stream_negotiated[OF True] host_push_single)
    moreover have "snd (run_stream A R tool_id' downstream' str_xml ri [r]) = snd (ii_push_record A R ?w1' r)"
      by (simp only: run_stream_negotiated[OF True'] host_push_single)
    ultimately show ?thesis using ii_push_record_tool_id[OF s1 p1 e1, of A R r] by simp
  next
    case False
    with f have False': "fst (ii_init ?w0' ri) \<noteq> Inr True" by simp
    show ?thesis
      by (simp add: run_stream_not_negotiated[OF False] run_stream_not_negotiated[OF False']
          negotiated_pushed_rows)
  qed
qed

end
